theory Spec2Isabelle
  imports Main
begin

section \<open>Shared HTTP vocabulary\<close>

text \<open>
  A route handler answers with a status, headers and a body. \<open>NextResponse.json\<close>
  produces the uniform envelope \<open>{success, error?}\<close>; the artifact route answers with the raw
  stored text. Header stores are maps from the header name to its value; \<open>headers.set\<close>
  replaces the value stored under a name.
\<close>

datatype resp_body =
    Envelope (success: bool) (error: "string option") (info: "string option")
  | Raw string

record response =
  status :: nat
  headers :: "string \<rightharpoonup> string"
  body :: resp_body

definition json_response :: "bool \<Rightarrow> string option \<Rightarrow> nat \<Rightarrow> response" where
  \<comment> \<open>\<open>NextResponse.json({ success, error }, { status })\<close>\<close>
  "json_response ok err st =
     \<lparr>status = st, headers = [''Content-Type'' \<mapsto> ''application/json''],
      body = Envelope ok err None\<rparr>"

definition json_success :: "string \<Rightarrow> nat \<Rightarrow> response" where
  \<comment> \<open>\<open>NextResponse.json({ success: true, message })\<close>; a \<open>data\<close> payload is not carried.\<close>
  "json_success msg st =
     \<lparr>status = st, headers = [''Content-Type'' \<mapsto> ''application/json''],
      body = Envelope True None (Some msg)\<rparr>"

subsection \<open>Request bodies\<close>

text \<open>
  A parsed JSON body. Numbers are kept as integers: the handlers only test them for
  truthiness and type. A property that is absent reads as \<open>undefined\<close>, here \<open>None\<close>;
  \<open>JSON.parse\<close> keeps the last of two equal keys.
\<close>

datatype json =
    JNull
  | JBool bool
  | JNum int
  | JStr string
  | JArr "json list"
  | JObj "(string \<times> json) list"

fun field :: "json \<Rightarrow> string \<Rightarrow> json option" where
  "field (JObj kvs) k = map_of (rev kvs) k"
| "field _ k = None"

fun truthy :: "json option \<Rightarrow> bool" where
  "truthy None = False"
| "truthy (Some JNull) = False"
| "truthy (Some (JBool b)) = b"
| "truthy (Some (JNum n)) = (n \<noteq> 0)"
| "truthy (Some (JStr s)) = (s \<noteq> [])"
| "truthy (Some (JArr xs)) = True"
| "truthy (Some (JObj kvs)) = True"

definition undefined_to_null :: "json option \<Rightarrow> json" where
  \<comment> \<open>A value as JSON writes it: \<open>undefined\<close> becomes \<open>null\<close>.\<close>
  "undefined_to_null v = (case v of None \<Rightarrow> JNull | Some x \<Rightarrow> x)"

definition endsWith :: "string \<Rightarrow> string \<Rightarrow> bool" where
  \<comment> \<open>\<open>String.prototype.endsWith\<close>: the last \<open>length suf\<close> characters of \<open>s\<close> are \<open>suf\<close>.\<close>
  "endsWith s suf = (length suf \<le> length s \<and> drop (length s - length suf) s = suf)"

definition startsWith :: "string \<Rightarrow> string \<Rightarrow> bool" where
  \<comment> \<open>\<open>String.prototype.startsWith\<close>\<close>
  "startsWith s pre = (take (length pre) s = pre)"

section \<open>Artifact retrieval: \<open>GET /projects/{slug}/artifacts/{phase}/{name}\<close>\<close>

text \<open>
  \<open>getProjectMetadata\<close> and \<open>readArtifact\<close> live in \<open>project-utils\<close>; the handler receives
  them as functions. Either may throw (\<open>Inl\<close> carries the error's message);
  \<open>getProjectMetadata\<close> returns a falsy value (\<open>None\<close>) for an unknown slug. The response
  is built inside the inner \<open>try\<close>, so a name that the \<open>Content-Disposition\<close> header cannot
  carry ends in the same \<open>catch\<close> as a failed read.
\<close>

definition artifact_content_type :: "string \<Rightarrow> string" where
  "artifact_content_type name =
     (if endsWith name ''.json'' then ''application/json''
      else if endsWith name ''.md'' then ''text/markdown''
      else ''text/plain'')"

definition header_value_ok :: "string \<Rightarrow> bool" where
  \<comment> \<open>The \<open>Headers\<close> constructor throws on a value that holds NUL, a line feed or a
      carriage return (and on characters beyond U+00FF, which \<open>char\<close> does not have).\<close>
  "header_value_ok v = list_all (\<lambda>c. c \<notin> {CHR 0x00, CHR 0x0A, CHR 0x0D}) v"

definition GET_artifact ::
  "(string \<Rightarrow> string + 'm option) \<Rightarrow> (string \<Rightarrow> string \<Rightarrow> string \<Rightarrow> string + string) \<Rightarrow>
   string \<Rightarrow> string \<Rightarrow> string \<Rightarrow> response" where
  "GET_artifact getProjectMetadata readArtifact slug phase name =
     (case getProjectMetadata slug of
        Inl msg \<Rightarrow> json_response False (Some (''Failed to fetch artifact: '' @ msg)) 500
      | Inr None \<Rightarrow> json_response False (Some ''Project not found'') 404
      | Inr (Some metadata) \<Rightarrow>
          (case readArtifact slug phase name of
             Inl fileErr \<Rightarrow> json_response False (Some ''Artifact not found'') 404
           | Inr content \<Rightarrow>
               if header_value_ok (''inline; filename='' @ [CHR 0x22] @ name @ [CHR 0x22])
               then \<lparr>status = 200,
                     headers = [''Content-Type'' \<mapsto> artifact_content_type name,
                                ''Content-Disposition'' \<mapsto>
                                  ''inline; filename='' @ [CHR 0x22] @ name @ [CHR 0x22]],
                     body = Raw content\<rparr>
               else json_response False (Some ''Artifact not found'') 404))"

section \<open>Admin user-role endpoint: \<open>PATCH\<close>\<close>

text \<open>
  The handler runs inside \<open>withAdminAuth\<close>, which hands it the session. \<open>isSuperAdmin\<close>
  belongs to the auth guard and is a parameter here, as are the two database statements:
  the \<open>select\<close> of the target's role by id (\<open>Inl\<close> when the query throws, \<open>Inr None\<close>
  when no row matches) and whether the \<open>update\<close> succeeds. The handler returns its
  response together with the list of \<open>update\<close> statements it issued, as (user id, role).
  The body is \<open>None\<close> when \<open>request.json()\<close> throws.
\<close>

record session =
  user_id :: string
  user_role :: string

definition server_error :: "string \<Rightarrow> response" where
  "server_error msg = json_response False (Some msg) 500"

definition PATCH_admin_users ::
  "(session \<Rightarrow> bool) \<Rightarrow> (json \<Rightarrow> string + string option) \<Rightarrow> (json \<Rightarrow> json \<Rightarrow> bool) \<Rightarrow>
   session \<Rightarrow> json option \<Rightarrow> response \<times> (json \<times> json) list" where
  "PATCH_admin_users isSuperAdmin select_role update_ok session request_json =
     (case request_json of
        None \<Rightarrow> (server_error ''Failed to update user'', [])
      | Some JNull \<Rightarrow> (server_error ''Failed to update user'', [])
      | Some parsed \<Rightarrow>
          (let userId = field parsed ''userId''; role = field parsed ''role'' in
           if \<not> truthy userId \<or> \<not> truthy role
             then (json_response False (Some ''User ID and role are required'') 400, [])
           else if role \<notin> {Some (JStr ''user''), Some (JStr ''admin''), Some (JStr ''super_admin'')}
             then (json_response False (Some ''Invalid role'') 400, [])
           else if role = Some (JStr ''super_admin'') \<and> \<not> isSuperAdmin session
             then (json_response False (Some ''Only super admins can assign super admin role'') 403, [])
           else if userId = Some (JStr (user_id session)) \<and> user_role session = ''super_admin''
                   \<and> role \<noteq> Some (JStr ''super_admin'')
             then (json_response False (Some ''Cannot demote yourself from super admin'') 400, [])
           else
             (case select_role (undefined_to_null userId) of
                Inl e \<Rightarrow> (server_error ''Failed to update user'', [])
              | Inr None \<Rightarrow> (json_response False (Some ''User not found'') 404, [])
              | Inr (Some targetRole) \<Rightarrow>
                  if targetRole = ''super_admin'' \<and> \<not> isSuperAdmin session
                    then (json_response False (Some ''Cannot modify super admin users'') 403, [])
                  else if update_ok (undefined_to_null userId) (undefined_to_null role)
                    then (json_success ''User role updated'' 200,
                          [(undefined_to_null userId, undefined_to_null role)])
                  else (server_error ''Failed to update user'',
                        [(undefined_to_null userId, undefined_to_null role)]))))"

text \<open>A sample deployment of the endpoint: two users, \<open>u1\<close> a plain user and \<open>u2\<close> a super admin.\<close>

definition role_is_super_admin :: "session \<Rightarrow> bool" where
  "role_is_super_admin s = (user_role s = ''super_admin'')"

definition sample_select :: "json \<Rightarrow> string + string option" where
  "sample_select uid =
     (if uid = JStr ''u1'' then Inr (Some ''user'')
      else if uid = JStr ''u2'' then Inr (Some ''super_admin'')
      else Inr None)"

definition update_succeeds :: "json \<Rightarrow> json \<Rightarrow> bool" where
  "update_succeeds uid r = True"

definition role_request :: "string \<Rightarrow> string \<Rightarrow> json" where
  "role_request uid r = JObj [(''userId'', JStr uid), (''role'', JStr r)]"

section \<open>Auth middleware and security headers\<close>

record url =
  origin :: string
  pathname :: string
  searchParams :: "(string \<times> string) list"

datatype middleware_action = Next | Redirect url

record middleware_response =
  action :: middleware_action
  mw_headers :: "string \<rightharpoonup> string"

definition publicRoutes :: "string list" where
  "publicRoutes = [''/'', ''/sign-in'', ''/sign-up'']"

definition join :: "string \<Rightarrow> string list \<Rightarrow> string" where
  \<comment> \<open>\<open>Array.prototype.join\<close>\<close>
  "join sep xs = (case xs of [] \<Rightarrow> [] | y # ys \<Rightarrow> foldl (\<lambda>acc z. acc @ sep @ z) y ys)"

definition quoted :: "string \<Rightarrow> string" where
  \<comment> \<open>The keyword \<open>s\<close> between single quotes, as CSP writes \<open>'self'\<close>.\<close>
  "quoted s = CHR 0x27 # s @ [CHR 0x27]"

definition cspHeader :: string where
  "cspHeader = join ''; ''
     [''default-src '' @ quoted ''self'',
      ''script-src '' @ quoted ''self'' @ '' '' @ quoted ''unsafe-inline'' @ '' '' @ quoted ''unsafe-eval'',
      ''style-src '' @ quoted ''self'' @ '' '' @ quoted ''unsafe-inline'',
      ''img-src '' @ quoted ''self'' @ '' data: https:'',
      ''font-src '' @ quoted ''self'' @ '' data:'',
      ''connect-src '' @ quoted ''self'' @ '' https://generativelanguage.googleapis.com'',
      ''frame-ancestors '' @ quoted ''none'',
      ''form-action '' @ quoted ''self'',
      ''base-uri '' @ quoted ''self'',
      ''object-src '' @ quoted ''none'',
      ''media-src '' @ quoted ''self'',
      ''manifest-src '' @ quoted ''self'',
      ''worker-src '' @ quoted ''self'',
      ''upgrade-insecure-requests'']"

definition permissionsPolicy :: string where
  "permissionsPolicy = join '', ''
     [''geolocation=()'', ''microphone=()'', ''camera=()'', ''payment=()'', ''usb=()'',
      ''magnetometer=()'', ''gyroscope=()'', ''accelerometer=()'']"

definition hstsValue :: string where
  "hstsValue = ''max-age=31536000; includeSubDomains; preload''"

definition hset :: "string \<Rightarrow> string \<Rightarrow> middleware_response \<Rightarrow> middleware_response" where
  \<comment> \<open>\<open>response.headers.set(name, value)\<close>\<close>
  "hset name v r = r\<lparr>mw_headers := (mw_headers r)(name \<mapsto> v)\<rparr>"

definition addSecurityHeaders :: "string option \<Rightarrow> middleware_response \<Rightarrow> middleware_response" where
  \<comment> \<open>The first argument is \<open>process.env.NODE_ENV\<close>.\<close>
  "addSecurityHeaders node_env response =
     (let r1 = hset ''Content-Security-Policy'' cspHeader response;
          r2 = hset ''X-Frame-Options'' ''DENY'' r1;
          r3 = hset ''X-Content-Type-Options'' ''nosniff'' r2;
          r4 = hset ''X-XSS-Protection'' ''1; mode=block'' r3;
          r5 = hset ''Referrer-Policy'' ''strict-origin-when-cross-origin'' r4;
          r6 = hset ''Permissions-Policy'' permissionsPolicy r5;
          r7 = hset ''Cross-Origin-Embedder-Policy'' ''require-corp'' r6;
          r8 = hset ''Cross-Origin-Opener-Policy'' ''same-origin'' r7;
          r9 = hset ''Cross-Origin-Resource-Policy'' ''same-origin'' r8
      in if node_env = Some ''production''
         then hset ''Strict-Transport-Security'' hstsValue r9
         else r9)"

definition NextResponse_next :: middleware_response where
  \<comment> \<open>\<open>NextResponse.next()\<close>: a fresh pass-through response.\<close>
  "NextResponse_next = \<lparr>action = Next, mw_headers = [''x-middleware-next'' \<mapsto> ''1'']\<rparr>"

definition NextResponse_redirect :: "url \<Rightarrow> middleware_response" where
  \<comment> \<open>\<open>NextResponse.redirect(url)\<close>: a fresh redirect response.\<close>
  "NextResponse_redirect u = \<lparr>action = Redirect u, mw_headers = Map.empty\<rparr>"

definition authMiddleware ::
  "string option \<Rightarrow> (string \<Rightarrow> string \<Rightarrow> 's option) \<Rightarrow> url \<Rightarrow> string option \<Rightarrow>
   middleware_response" where
  \<comment> \<open>Arguments: \<open>NODE_ENV\<close>, the session lookup behind \<open>betterFetch\<close> (origin and cookie
      header to the session data), \<open>request.nextUrl\<close>, the request's cookie header.\<close>
  "authMiddleware node_env get_session nextUrl cookie =
     (if pathname nextUrl \<in> set publicRoutes then addSecurityHeaders node_env NextResponse_next
      else
        (case get_session (origin nextUrl) (case cookie of None \<Rightarrow> [] | Some c \<Rightarrow> c) of
           None \<Rightarrow>
             addSecurityHeaders node_env
               (NextResponse_redirect
                  \<lparr>origin = origin nextUrl, pathname = ''/sign-in'',
                   searchParams = [(''callbackUrl'', pathname nextUrl)]\<rparr>)
         | Some session \<Rightarrow> addSecurityHeaders node_env NextResponse_next))"

definition authMiddleware_plain ::
  "(string \<Rightarrow> string \<Rightarrow> 's option) \<Rightarrow> url \<Rightarrow> string option \<Rightarrow> middleware_response" where
  \<comment> \<open>The copy of the middleware in \<open>src/middleware.ts\<close>: the same routing, the responses
      returned as \<open>NextResponse\<close> makes them.\<close>
  "authMiddleware_plain get_session nextUrl cookie =
     (if pathname nextUrl \<in> set publicRoutes then NextResponse_next
      else
        (case get_session (origin nextUrl) (case cookie of None \<Rightarrow> [] | Some c \<Rightarrow> c) of
           None \<Rightarrow>
             NextResponse_redirect
               \<lparr>origin = origin nextUrl, pathname = ''/sign-in'',
                searchParams = [(''callbackUrl'', pathname nextUrl)]\<rparr>
         | Some session \<Rightarrow> NextResponse_next))"

section \<open>Schema validation (zod)\<close>

text \<open>
  The schemas of the repository are built from the combinators of the zod library. They are
  kept as data, written as in the source, and read by \<open>parse\<close>, which follows the library:
  a type mismatch aborts the value, a failed check adds an issue and goes on, a refinement
  runs unless the inner value was aborted, a transform runs only on a valid value, an object
  keeps the declared keys only. The URL and e-mail grammars and JavaScript's \<open>Number\<close> belong
  to the platform and are parameters (\<open>zod_lib\<close>).
\<close>

datatype path_elem = Key string | Index nat

datatype issue_code =
  invalid_type | too_small | too_big | invalid_string | invalid_enum_value | custom

record issue =
  code :: issue_code
  path :: "path_elem list"
  message :: string

datatype zcheck =
    Min nat string
  | Max nat string
  | Url "string option"
  | Email "string option"
  | Trim

datatype zschema =
    ZString "zcheck list"
  | ZEnum "string list"
  | ZCoerceNumber
  | ZArray zschema
  | ZObject "(string \<times> zschema) list"
  | ZOptional zschema
  | ZDefault zschema json
  | ZRefine zschema "json option \<Rightarrow> bool" string
  | ZTransform zschema "json option \<Rightarrow> json option"

datatype zresult = Aborted "issue list" | Parsed "issue list" "json option"

fun issues :: "zresult \<Rightarrow> issue list" where
  "issues (Aborted is) = is"
| "issues (Parsed is v) = is"

fun is_aborted :: "zresult \<Rightarrow> bool" where
  "is_aborted (Aborted is) = True"
| "is_aborted (Parsed is v) = False"

fun parsed_value :: "zresult \<Rightarrow> json option" where
  "parsed_value (Aborted is) = None"
| "parsed_value (Parsed is v) = v"

record zod_lib =
  is_url :: "string \<Rightarrow> bool"
  is_email :: "string \<Rightarrow> bool"
  to_number :: "json option \<Rightarrow> int option"

fun parsedType :: "json option \<Rightarrow> string" where
  "parsedType None = ''undefined''"
| "parsedType (Some JNull) = ''null''"
| "parsedType (Some (JBool b)) = ''boolean''"
| "parsedType (Some (JNum n)) = ''number''"
| "parsedType (Some (JStr s)) = ''string''"
| "parsedType (Some (JArr xs)) = ''array''"
| "parsedType (Some (JObj kvs)) = ''object''"

definition invalid_type_issue :: "path_elem list \<Rightarrow> string \<Rightarrow> string \<Rightarrow> issue" where
  \<comment> \<open>zod's default text for a value of the wrong type.\<close>
  "invalid_type_issue p expected received =
     \<lparr>code = invalid_type, path = p,
      message = (if received = ''undefined'' then ''Required''
                 else ''Expected '' @ expected @ '', received '' @ received)\<rparr>"

definition is_space :: "char \<Rightarrow> bool" where
  \<comment> \<open>The white space of JavaScript within the 8-bit characters: blank, tab, line feed,
      vertical tab, form feed, carriage return and the no-break space U+00A0.\<close>
  "is_space c = (c \<in> {CHR '' '', CHR 0x09, CHR 0x0A, CHR 0x0B, CHR 0x0C, CHR 0x0D, CHR 0xA0})"

definition trim :: "string \<Rightarrow> string" where
  \<comment> \<open>\<open>String.prototype.trim\<close>; the white space beyond U+00FF is outside \<open>char\<close>.\<close>
  "trim s = rev (dropWhile is_space (rev (dropWhile is_space s)))"

fun run_check :: "zod_lib \<Rightarrow> path_elem list \<Rightarrow> issue list \<times> string \<Rightarrow> zcheck \<Rightarrow> issue list \<times> string" where
  "run_check lib p (is, d) (Min n msg) =
     (if length d < n then (is @ [\<lparr>code = too_small, path = p, message = msg\<rparr>], d) else (is, d))"
| "run_check lib p (is, d) (Max n msg) =
     (if length d > n then (is @ [\<lparr>code = too_big, path = p, message = msg\<rparr>], d) else (is, d))"
| "run_check lib p (is, d) (Url msg) =
     (if is_url lib d then (is, d)
      else (is @ [\<lparr>code = invalid_string, path = p,
                   message = (case msg of None \<Rightarrow> ''Invalid url'' | Some m \<Rightarrow> m)\<rparr>], d))"
| "run_check lib p (is, d) (Email msg) =
     (if is_email lib d then (is, d)
      else (is @ [\<lparr>code = invalid_string, path = p,
                   message = (case msg of None \<Rightarrow> ''Invalid email'' | Some m \<Rightarrow> m)\<rparr>], d))"
| "run_check lib p (is, d) Trim = (is, trim d)"

definition enum_values :: "string list \<Rightarrow> string" where
  "enum_values vals = join '' | '' (map quoted vals)"

fun parse :: "zod_lib \<Rightarrow> zschema \<Rightarrow> path_elem list \<Rightarrow> json option \<Rightarrow> zresult" where
  "parse lib (ZString checks) p v =
     (case v of
        Some (JStr s) \<Rightarrow>
          (case foldl (run_check lib p) ([], s) checks of (is, d) \<Rightarrow> Parsed is (Some (JStr d)))
      | _ \<Rightarrow> Aborted [invalid_type_issue p ''string'' (parsedType v)])"
| "parse lib (ZEnum vals) p v =
     (case v of
        Some (JStr s) \<Rightarrow>
          (if s \<in> set vals then Parsed [] v
           else Aborted [\<lparr>code = invalid_enum_value, path = p,
                           message = ''Invalid enum value. Expected '' @ enum_values vals
                                     @ '', received '' @ quoted s\<rparr>])
      | _ \<Rightarrow> Aborted [invalid_type_issue p (enum_values vals) (parsedType v)])"
| "parse lib ZCoerceNumber p v =
     (case to_number lib v of
        Some n \<Rightarrow> Parsed [] (Some (JNum n))
      | None \<Rightarrow> Aborted [invalid_type_issue p ''number'' ''nan''])"
| "parse lib (ZArray s) p v =
     (case v of
        Some (JArr xs) \<Rightarrow>
          (let rs = map (\<lambda>(i, x). parse lib s (p @ [Index i]) (Some x)) (zip [0..<length xs] xs) in
           if list_ex is_aborted rs then Aborted (concat (map issues rs))
           else Parsed (concat (map issues rs))
                  (Some (JArr (map (undefined_to_null \<circ> parsed_value) rs))))
      | _ \<Rightarrow> Aborted [invalid_type_issue p ''array'' (parsedType v)])"
| "parse lib (ZObject shape) p v =
     (case v of
        Some (JObj kvs) \<Rightarrow>
          (let rs = map (\<lambda>(k, s). (k, parse lib s (p @ [Key k]) (field (JObj kvs) k))) shape in
           if list_ex (is_aborted \<circ> snd) rs then Aborted (concat (map (issues \<circ> snd) rs))
           else Parsed (concat (map (issues \<circ> snd) rs))
                  (Some (JObj (concat (map (\<lambda>(k, r). case parsed_value r of
                                                      None \<Rightarrow> [] | Some x \<Rightarrow> [(k, x)]) rs)))))
      | _ \<Rightarrow> Aborted [invalid_type_issue p ''object'' (parsedType v)])"
| "parse lib (ZOptional s) p v = (if v = None then Parsed [] None else parse lib s p v)"
| "parse lib (ZDefault s d) p v = parse lib s p (if v = None then Some d else v)"
| "parse lib (ZRefine s ok msg) p v =
     (case parse lib s p v of
        Aborted is \<Rightarrow> Aborted is
      | Parsed is x \<Rightarrow>
          if ok x then Parsed is x
          else Parsed (is @ [\<lparr>code = custom, path = p, message = msg\<rparr>]) x)"
| "parse lib (ZTransform s f) p v =
     (case parse lib s p v of
        Parsed [] x \<Rightarrow> Parsed [] (f x)
      | r \<Rightarrow> r)"

fun shape_of :: "zschema \<Rightarrow> (string \<times> zschema) list" where
  "shape_of (ZObject shape) = shape"
| "shape_of _ = []"

definition safeParse :: "zod_lib \<Rightarrow> zschema \<Rightarrow> json option \<Rightarrow> issue list + json option" where
  \<comment> \<open>\<open>schema.safeParse(data)\<close>: \<open>Inr\<close> the parsed data on success, \<open>Inl\<close> the issues.\<close>
  "safeParse lib schema v =
     (case parse lib schema [] v of
        Parsed [] x \<Rightarrow> Inr x
      | r \<Rightarrow> Inl (issues r))"

definition CreateProjectSchema :: zschema where
  "CreateProjectSchema = ZObject
     [(''name'', ZString [Min 1 ''Project name is required'',
                          Max 100 ''Project name must not exceed 100 characters'', Trim]),
      (''description'',
         ZDefault (ZOptional (ZString [Max 5000 ''Description must not exceed 5000 characters'', Trim]))
           (JStr ''''))]"

definition ApproveStackSchema :: zschema where
  "ApproveStackSchema = ZObject
     [(''stack_choice'', ZString [Min 1 ''Stack choice is required'', Trim]),
      (''reasoning'',
         ZDefault (ZOptional (ZString [Max 2000 ''Reasoning must not exceed 2000 characters'', Trim]))
           (JStr '''')),
      (''platform'', ZOptional (ZString []))]"

definition DependencyPackageSchema :: zschema where
  "DependencyPackageSchema = ZObject
     [(''name'', ZString []),
      (''version'', ZString []),
      (''size'', ZOptional (ZString [])),
      (''category'', ZEnum [''core'', ''ui'', ''data'', ''auth'', ''utils'', ''dev''])]"

definition DependencyOptionSchema :: zschema where
  "DependencyOptionSchema = ZObject
     [(''id'', ZString []),
      (''title'', ZString []),
      (''summary'', ZString []),
      (''frontend'', ZString []),
      (''backend'', ZString []),
      (''database'', ZString []),
      (''deployment'', ZString []),
      (''packages'', ZArray DependencyPackageSchema),
      (''highlights'', ZArray (ZString []))]"

definition CustomStackSchema :: zschema where
  "CustomStackSchema = ZObject
     [(''frontend'', ZString []),
      (''backend'', ZString []),
      (''database'', ZString []),
      (''deployment'', ZString []),
      (''dependencies'', ZArray (ZString [])),
      (''requests'', ZOptional (ZString []))]"

definition ApproveDependenciesSchema :: zschema where
  "ApproveDependenciesSchema = ZObject
     [(''notes'', ZOptional (ZString [Max 2000 ''Notes must not exceed 2000 characters'', Trim])),
      (''mode'', ZOptional (ZEnum [''preset'', ''custom''])),
      (''architecture'', ZOptional (ZString [])),
      (''option'', ZOptional DependencyOptionSchema),
      (''customStack'', ZOptional CustomStackSchema)]"


section \<open>Environment validation at start\<close>

definition is_postgres_url :: "json option \<Rightarrow> bool" where
  \<comment> \<open>\<open>url => url.startsWith('postgres') || url.startsWith('postgresql')\<close>\<close>
  "is_postgres_url v =
     (case v of Some (JStr url) \<Rightarrow> startsWith url ''postgres'' \<or> startsWith url ''postgresql''
      | _ \<Rightarrow> False)"

definition is_true_text :: "json option \<Rightarrow> json option" where
  \<comment> \<open>\<open>v => v === 'true'\<close>\<close>
  "is_true_text v = Some (JBool (v = Some (JStr ''true'')))"

definition envSchema :: zschema where
  "envSchema = ZObject
     [(''DATABASE_URL'',
         ZRefine (ZString [Url (Some ''DATABASE_URL must be a valid URL'')]) is_postgres_url
           ''DATABASE_URL must be a PostgreSQL connection string''),
      (''BETTER_AUTH_SECRET'',
         ZOptional (ZString [Min 32 ''BETTER_AUTH_SECRET must be at least 32 characters''])),
      (''AUTH_SECRET'', ZOptional (ZString [Min 32 ''AUTH_SECRET must be at least 32 characters''])),
      (''GEMINI_API_KEY'', ZString [Min 1 ''GEMINI_API_KEY is required for LLM functionality'']),
      (''NEXT_PUBLIC_APP_URL'', ZString [Url (Some ''NEXT_PUBLIC_APP_URL must be a valid URL'')]),
      (''AUTH_BASE_URL'', ZOptional (ZString [Url (Some ''AUTH_BASE_URL must be a valid URL'')])),
      (''ALLOWED_ORIGINS'', ZDefault (ZString []) (JStr ''http://localhost:3000'')),
      (''NODE_ENV'', ZDefault (ZEnum [''development'', ''production'', ''test'']) (JStr ''development'')),
      (''SENTRY_DSN'', ZOptional (ZString [Url None])),
      (''SENTRY_ENVIRONMENT'', ZOptional (ZString [])),
      (''UPSTASH_REDIS_REST_URL'', ZOptional (ZString [Url None])),
      (''R2_ACCOUNT_ID'', ZOptional (ZString [])),
      (''R2_ACCESS_KEY_ID'', ZOptional (ZString [])),
      (''R2_SECRET_ACCESS_KEY'', ZOptional (ZString [])),
      (''R2_BUCKET_NAME'', ZOptional (ZString [])),
      (''S3_BUCKET'', ZOptional (ZString [])),
      (''AWS_REGION'', ZOptional (ZString [])),
      (''AWS_ACCESS_KEY_ID'', ZOptional (ZString [])),
      (''AWS_SECRET_ACCESS_KEY'', ZOptional (ZString [])),
      (''GOOGLE_CLIENT_ID'', ZOptional (ZString [])),
      (''GOOGLE_CLIENT_SECRET'', ZOptional (ZString [])),
      (''SMTP_HOST'', ZOptional (ZString [])),
      (''SMTP_PORT'', ZOptional ZCoerceNumber),
      (''SMTP_USER'', ZOptional (ZString [])),
      (''SMTP_PASS'', ZOptional (ZString [])),
      (''EMAIL_FROM'', ZOptional (ZString [Email None])),
      (''LOG_LEVEL'', ZDefault (ZEnum [''debug'', ''info'', ''warn'', ''error'']) (JStr ''info'')),
      (''LOG_AGGREGATION_ENABLED'', ZDefault (ZTransform (ZString []) is_true_text) (JStr ''false''))]"

text \<open>
  \<open>process.env\<close> is a list of variable names with their texts. The module validates it when
  it is loaded: a failed parse prints the issues and calls \<open>process.exit(1)\<close>; otherwise the
  validated object is exported as \<open>env\<close>.
\<close>

definition process_env :: "(string \<times> string) list \<Rightarrow> json" where
  "process_env vars = JObj (map (\<lambda>(k, v). (k, JStr v)) vars)"

definition getenv :: "(string \<times> string) list \<Rightarrow> string \<Rightarrow> string option" where
  "getenv vars k = map_of (rev vars) k"

datatype startup = Exit nat | Started "json option"

definition load_env :: "zod_lib \<Rightarrow> (string \<times> string) list \<Rightarrow> startup" where
  "load_env lib vars =
     (case safeParse lib envSchema (Some (process_env vars)) of
        Inl errors \<Rightarrow> Exit 1
      | Inr validatedEnv \<Rightarrow> Started validatedEnv)"

definition getJWTSecret :: "json option \<Rightarrow> nat + json" where
  \<comment> \<open>\<open>env.BETTER_AUTH_SECRET || env.AUTH_SECRET\<close>; \<open>Inl\<close> is the exit status of \<open>process.exit\<close>.\<close>
  "getJWTSecret env =
     (let e = undefined_to_null env;
          secret = (if truthy (field e ''BETTER_AUTH_SECRET'') then field e ''BETTER_AUTH_SECRET''
                    else field e ''AUTH_SECRET'')
      in case secret of
           None \<Rightarrow> Inl 1
         | Some s \<Rightarrow> if truthy (Some s) then Inr s else Inl 1)"

definition is_digit :: "char \<Rightarrow> bool" where
  "is_digit c = (48 \<le> (of_char c :: nat) \<and> (of_char c :: nat) \<le> 57)"

definition sample_lib :: zod_lib where
  \<comment> \<open>A stand-in for the platform: absolute URLs of the schemes the samples use, addresses
      with an \<open>@\<close>, numbers written in decimal digits.\<close>
  "sample_lib =
     \<lparr>is_url = (\<lambda>s. startsWith s ''http://'' \<or> startsWith s ''https://''
                     \<or> startsWith s ''postgres://'' \<or> startsWith s ''postgresql://''),
      is_email = (\<lambda>s. CHR ''@'' \<in> set s),
      to_number = (\<lambda>v. case v of
                          Some (JStr s) \<Rightarrow> if s \<noteq> [] \<and> list_all is_digit s
                                           then Some (foldl (\<lambda>n c. 10 * n + (of_char c - 48)) (0::int) s)
                                           else None
                        | _ \<Rightarrow> None)\<rparr>"

definition sample_env :: "(string \<times> string) list" where
  "sample_env =
     [(''DATABASE_URL'', ''postgresql://app@db.example.com/spec''),
      (''GEMINI_API_KEY'', ''k-123''),
      (''NEXT_PUBLIC_APP_URL'', ''http://localhost:3000'')]"

section \<open>Projects, artifacts and the store\<close>

text \<open>
  The metadata of a project as the routes read and write it (\<open>current_phase\<close> is a plain
  string in the code). \<open>pid\<close>, \<open>pslug\<close> and \<open>pname\<close> are the fields \<open>id\<close>, \<open>slug\<close> and \<open>name\<close>.
\<close>

record custom_stack_composition =
  frontend_framework :: string
  frontend_meta_framework :: "string option"
  frontend_styling :: string
  frontend_ui_library :: string
  mobile_platform :: string
  backend_language :: string
  backend_framework :: string
  database_provider :: string
  database_type :: string
  database_orm :: "string option"
  deployment_platform :: string
  deployment_architecture :: string

record project_metadata =
  pid :: string
  pslug :: string
  pname :: string
  description :: string
  current_phase :: string
  phases_completed :: "string list"
  stack_choice :: "string option"
  stack_mode :: "string option"
  platform_type :: "string option"
  stack_approved :: bool
  stack_approval_date :: "string option"
  stack_reasoning :: "string option"
  technical_preferences :: "(string \<times> string) list"
  custom_composition :: "custom_stack_composition option"
  dependencies_approved :: bool
  created_by_id :: string
  created_at :: string
  updated_at :: string

record artifact =
  art_project :: string
  art_phase :: string
  art_name :: string
  art_content :: string
  art_version :: nat

record store =
  projects :: "string \<rightharpoonup> project_metadata"
  files :: "artifact list"
  db_projects :: "string \<rightharpoonup> project_metadata"
  db_artifacts :: "artifact list"

definition same_document :: "string \<Rightarrow> string \<Rightarrow> string \<Rightarrow> artifact \<Rightarrow> bool" where
  "same_document proj phase name a =
     (art_project a = proj \<and> art_phase a = phase \<and> art_name a = name)"

definition next_version :: "artifact list \<Rightarrow> string \<Rightarrow> string \<Rightarrow> string \<Rightarrow> nat" where
  "next_version arts proj phase name =
     Suc (foldr max (map art_version (filter (same_document proj phase name) arts)) 0)"

definition add_version :: "artifact list \<Rightarrow> string \<Rightarrow> string \<Rightarrow> string \<Rightarrow> string \<Rightarrow> artifact list" where
  \<comment> \<open>Modelled from the spec: the storage helpers behind \<open>writeArtifact\<close> and \<open>saveArtifact\<close>
      are outside the files embedded here. The spec keeps documents under
      \<open>{phase}/{artifactName}\<close>, "versioned by an integer counter per (project, phase, name)
      triple"; a regeneration adds a version and earlier documents are not deleted.\<close>
  "add_version arts proj phase name content =
     arts @ [\<lparr>art_project = proj, art_phase = phase, art_name = name, art_content = content,
              art_version = next_version arts proj phase name\<rparr>]"

definition writeArtifact :: "string \<Rightarrow> string \<Rightarrow> string \<Rightarrow> string \<Rightarrow> store \<Rightarrow> store" where
  \<comment> \<open>Modelled from the spec: \<open>writeArtifact\<close> of \<open>project-utils\<close>, the file or object
      storage of generated documents, keyed by project and phase.\<close>
  "writeArtifact slug phase name content st =
     st\<lparr>files := add_version (files st) slug phase name content\<rparr>"

definition saveArtifact :: "string \<Rightarrow> string \<Rightarrow> string \<Rightarrow> string \<Rightarrow> store \<Rightarrow> store" where
  \<comment> \<open>Modelled from the spec: \<open>ProjectDBService.saveArtifact\<close>, the relational store of
      documents, keyed by the project's id.\<close>
  "saveArtifact projectId phase name content st =
     st\<lparr>db_artifacts := add_version (db_artifacts st) projectId phase name content\<rparr>"

definition getProjectMetadata :: "store \<Rightarrow> string \<Rightarrow> project_metadata option" where
  \<comment> \<open>Modelled from the spec: \<open>getProjectMetadata\<close> of \<open>project-utils\<close>; a slug that names no
      project gives \<open>null\<close>.\<close>
  "getProjectMetadata st slug = projects st slug"

definition saveProjectMetadata :: "string \<Rightarrow> project_metadata \<Rightarrow> store \<Rightarrow> store" where
  \<comment> \<open>Modelled from the spec: \<open>saveProjectMetadata\<close> of \<open>project-utils\<close>.\<close>
  "saveProjectMetadata slug m st = st\<lparr>projects := (projects st)(slug \<mapsto> m)\<rparr>"

definition persistProjectToDB :: "string \<Rightarrow> project_metadata \<Rightarrow> store \<Rightarrow> store" where
  \<comment> \<open>Modelled from the spec: \<open>persistProjectToDB\<close> of \<open>project-utils\<close>, the copy of the
      project in the relational store.\<close>
  "persistProjectToDB slug m st = st\<lparr>db_projects := (db_projects st)(slug \<mapsto> m)\<rparr>"

section \<open>Stack approval: \<open>POST /projects/{slug}/approve-stack\<close>\<close>

definition lines :: "string list \<Rightarrow> string" where
  \<comment> \<open>The lines of a template literal, joined by line feeds.\<close>
  "lines ls = join [CHR 0x0A] ls"

definition replace_underscores :: "string \<Rightarrow> string" where
  \<comment> \<open>\<open>k.replace(/_/g, ' ')\<close>\<close>
  "replace_underscores k = map (\<lambda>c. if c = CHR ''_'' then CHR '' '' else c) k"

definition or_else :: "string option \<Rightarrow> string \<Rightarrow> string" where
  \<comment> \<open>\<open>x || fallback\<close> on an optional string: undefined and the empty string are falsy.\<close>
  "or_else x fallback = (case x of None \<Rightarrow> fallback | Some s \<Rightarrow> if s = [] then fallback else s)"

definition compositionTable :: "string \<Rightarrow> string \<Rightarrow> custom_stack_composition option \<Rightarrow> string" where
  "compositionTable mode stackChoice customComposition =
     (case (if mode = ''custom'' then customComposition else None) of
        Some c \<Rightarrow> lines
          [''| Layer | Technology | Details |'',
           ''|-------|------------|---------|'',
           ''| Frontend | '' @ frontend_framework c @ '' | ''
             @ or_else (frontend_meta_framework c) ''N/A'' @ '' + '' @ frontend_styling c
             @ '' + '' @ frontend_ui_library c @ '' |'',
           ''| Mobile | '' @ mobile_platform c @ '' | ''
             @ (if mobile_platform c = ''none'' then ''Responsive web only'' else mobile_platform c)
             @ '' |'',
           ''| Backend | '' @ backend_language c @ '' | '' @ backend_framework c @ '' |'',
           ''| Database | '' @ database_provider c @ '' | '' @ database_type c
             @ (if or_else (database_orm c) [] = [] then [] else '' + '' @ or_else (database_orm c) [])
             @ '' |'',
           ''| Deployment | '' @ deployment_platform c @ '' | '' @ deployment_architecture c
             @ '' architecture |'']
      | None \<Rightarrow> lines
          [''| Layer | Selection |'',
           ''|-------|-----------|'',
           ''| Template | '' @ stackChoice @ '' |'',
           [],
           ''*See stack_templates in orchestrator_spec.yml for full composition details.*''])"

definition preferencesTable :: "(string \<times> string) list option \<Rightarrow> string" where
  "preferencesTable technicalPreferences =
     (case technicalPreferences of
        None \<Rightarrow> []
      | Some tp \<Rightarrow>
          if tp = [] then []
          else lines
            [''## Technical Preferences Applied'',
             [],
             ''| Category | Library |'',
             ''|----------|---------|'',
             lines (map (\<lambda>(k, v). ''| '' @ replace_underscores k @ '' | '' @ v @ '' |'')
                      (filter (\<lambda>(k, v). v \<noteq> []) tp))])"

definition alternativesTable :: "(string \<times> string) list option \<Rightarrow> string" where
  "alternativesTable alternativesConsidered =
     (case alternativesConsidered of
        None \<Rightarrow> []
      | Some alts \<Rightarrow>
          if alts = [] then []
          else lines
            [''## Alternatives Considered'',
             [],
             ''| Stack | Why Not Chosen |'',
             ''|-------|----------------|'',
             lines (map (\<lambda>(stack, reason_not_chosen).
                           ''| '' @ stack @ '' | '' @ reason_not_chosen @ '' |'') alts)])"

definition iso_date :: "string \<Rightarrow> string" where
  \<comment> \<open>\<open>toISOString().split('T')[0]\<close>\<close>
  "iso_date timestamp = takeWhile (\<lambda>c. c \<noteq> CHR ''T'') timestamp"

definition generateStackDecisionContent ::
  "string \<Rightarrow> string \<Rightarrow> string \<Rightarrow> string \<Rightarrow> custom_stack_composition option \<Rightarrow>
   (string \<times> string) list option \<Rightarrow> (string \<times> string) list option \<Rightarrow> string" where
  \<comment> \<open>The first argument is \<open>new Date().toISOString()\<close>.\<close>
  \<open>generateStackDecisionContent timestamp mode stackChoice reasoning customComposition
       technicalPreferences alternativesConsidered =
     lines
       [''---'',
        ''title: "Technology Stack Decision"'',
        ''owner: "architect"'',
        ''version: "1"'',
        ''date: "'' @ iso_date timestamp @ ''"'',
        ''status: "approved"'',
        ''mode: "'' @ mode @ ''"'',
        ''template: "'' @ stackChoice @ ''"'',
        ''---'',
        [],
        ''# Technology Stack Decision'',
        [],
        ''## Selection Mode'',
        ''**'' @ (if mode = ''custom'' then ''Custom Stack'' else ''Template: '' @ stackChoice) @ ''**'',
        [],
        ''## Composition'',
        [],
        compositionTable mode stackChoice customComposition,
        [],
        preferencesTable technicalPreferences,
        [],
        ''## Rationale'',
        (if reasoning = [] then ''Stack approved by user.'' else reasoning),
        [],
        alternativesTable alternativesConsidered,
        [],
        ''## Approval Details'',
        ''- **Approved At**: '' @ timestamp,
        ''- **Mode**: '' @ mode,
        [],
        ''## Next Steps'',
        ''This stack decision will guide dependency generation in the DEPENDENCIES phase.'',
        []]\<close>

definition generateStackRationaleContent ::
  "string \<Rightarrow> string \<Rightarrow> string \<Rightarrow> string \<Rightarrow> (string \<times> string) list option \<Rightarrow> string" where
  \<open>generateStackRationaleContent timestamp mode stackChoice reasoning alternativesConsidered =
     lines
       [''---'',
        ''title: "Stack Selection Rationale"'',
        ''owner: "architect"'',
        ''version: "1"'',
        ''date: "'' @ iso_date timestamp @ ''"'',
        ''status: "approved"'',
        ''---'',
        [],
        ''# Stack Selection Rationale'',
        [],
        ''## Summary'',
        ''- **Selection Mode**: '' @ mode,
        ''- **Chosen Stack**: '' @ stackChoice,
        ''- **Decision Date**: '' @ iso_date timestamp,
        [],
        ''## Reasoning'',
        [],
        (if reasoning = [] then ''User approved the stack selection.'' else reasoning),
        [],
        ''## Decision Factors'',
        [],
        ''The stack was selected based on:'',
        ''1. Project requirements from project-brief.md'',
        ''2. User persona needs from personas.md'',
        ''3. Technical constraints from constitution.md'',
        [],
        (case alternativesConsidered of
           None \<Rightarrow> []
         | Some alts \<Rightarrow>
             if alts = [] then []
             else lines
               [[],
                ''## Alternatives Considered'',
                [],
                lines (map (\<lambda>(stack, reason_not_chosen).
                              lines [''### '' @ stack,
                                     ''**Why not chosen**: '' @ reason_not_chosen,
                                     []]) alts)]),
        [],
        ''## Trade-offs Accepted'',
        [],
        ''*To be detailed based on the specific stack choice.*'',
        [],
        ''## Future Considerations'',
        [],
        ''- Monitor performance and scalability as the project grows'',
        ''- Re-evaluate stack if requirements change significantly'',
        ''- Consider migration paths documented in orchestrator_spec.yml'',
        []]\<close>

definition text_field :: "json option \<Rightarrow> string \<Rightarrow> string option" where
  \<comment> \<open>A string property of the validated data.\<close>
  "text_field data k =
     (case field (undefined_to_null data) k of Some (JStr s) \<Rightarrow> Some s | _ \<Rightarrow> None)"

text \<open>
  The handler. \<open>ApproveStackSchema\<close> keeps the keys \<open>stack_choice\<close>, \<open>reasoning\<close> and
  \<open>platform\<close> only, so of the destructured values \<open>mode\<close> takes its default \<open>template\<close> and
  \<open>custom_composition\<close>, \<open>technical_preferences\<close> and \<open>alternatives_considered\<close> are
  undefined. \<open>fs_ok\<close> and \<open>db_ok\<close> say whether the file writes and the database writes go
  through: a failed file write is caught by the handler's outer \<open>catch\<close> (500), a failed
  database write by the inner one (logged, the request goes on). The body is \<open>None\<close> when
  \<open>request.json()\<close> throws.
\<close>

definition POST_approve_stack ::
  "zod_lib \<Rightarrow> string \<Rightarrow> bool \<Rightarrow> bool \<Rightarrow> session \<Rightarrow> string \<Rightarrow> json option \<Rightarrow> store \<Rightarrow>
   response \<times> store" where
  "POST_approve_stack lib now fs_ok db_ok session slug request_json st =
     (case request_json of
        None \<Rightarrow> (server_error ''Failed to approve stack'', st)
      | Some parsed \<Rightarrow>
          (case safeParse lib ApproveStackSchema (Some parsed) of
             Inl errors \<Rightarrow> (json_response False (Some ''Invalid input'') 400, st)
           | Inr data \<Rightarrow>
               (let mode = ''template'';
                    choice = or_else (text_field data ''stack_choice'') [];
                    reasoning = or_else (text_field data ''reasoning'') [];
                    platform = text_field data ''platform''
                in case getProjectMetadata st slug of
                     None \<Rightarrow> (json_response False (Some ''Project not found'') 404, st)
                   | Some metadata \<Rightarrow>
                       if created_by_id metadata \<noteq> user_id session
                         then (json_response False (Some ''Project not found'') 404, st)
                       else if \<not> fs_ok then (server_error ''Failed to approve stack'', st)
                       else
                         (let stackDecisionContent =
                                generateStackDecisionContent now mode choice reasoning None None None;
                              stackRationaleContent =
                                generateStackRationaleContent now mode choice reasoning None;
                              st1 = writeArtifact slug ''STACK_SELECTION'' ''stack-decision.md''
                                      stackDecisionContent st;
                              st2 = writeArtifact slug ''STACK_SELECTION'' ''stack-rationale.md''
                                      stackRationaleContent st1;
                              st3 = (case db_projects st2 slug of
                                       None \<Rightarrow> st2
                                     | Some dbProject \<Rightarrow>
                                         if db_ok
                                         then saveArtifact (pid dbProject) ''STACK_SELECTION''
                                                ''stack-rationale.md'' stackRationaleContent
                                                (saveArtifact (pid dbProject) ''STACK_SELECTION''
                                                   ''stack-decision.md'' stackDecisionContent st2)
                                         else st2);
                              updated = metadata
                                \<lparr>stack_choice := Some choice,
                                 stack_mode := Some mode,
                                 platform_type := platform,
                                 stack_approved := True,
                                 stack_approval_date := Some now,
                                 stack_reasoning := Some reasoning,
                                 technical_preferences := [],
                                 custom_composition := None,
                                 created_by_id := (if created_by_id metadata = [] then user_id session
                                                   else created_by_id metadata),
                                 updated_at := now\<rparr>
                          in (json_success ''Stack selection approved successfully'' 200,
                              persistProjectToDB slug updated (saveProjectMetadata slug updated st3))))))"

text \<open>A sample store: the project \<open>demo\<close> of user \<open>u1\<close>, its stack approved once already.\<close>

definition demo_metadata :: project_metadata where
  "demo_metadata =
     \<lparr>pid = ''p-1'', pslug = ''demo'', pname = ''Demo'', description = [],
      current_phase = ''STACK_SELECTION'', phases_completed = [''ANALYSIS''],
      stack_choice = Some ''nextjs'', stack_mode = Some ''template'', platform_type = None,
      stack_approved = True, stack_approval_date = Some ''2025-01-01T00:00:00.000Z'',
      stack_reasoning = Some [], technical_preferences = [], custom_composition = None,
      dependencies_approved = False, created_by_id = ''u1'',
      created_at = ''2025-01-01T00:00:00.000Z'', updated_at = ''2025-01-01T00:00:00.000Z''\<rparr>"

definition demo_store :: store where
  "demo_store =
     \<lparr>projects = [''demo'' \<mapsto> demo_metadata],
      files = [\<lparr>art_project = ''demo'', art_phase = ''STACK_SELECTION'',
                art_name = ''stack-decision.md'', art_content = ''first decision'',
                art_version = 1\<rparr>,
               \<lparr>art_project = ''demo'', art_phase = ''STACK_SELECTION'',
                art_name = ''stack-rationale.md'', art_content = ''first rationale'',
                art_version = 1\<rparr>],
      db_projects = Map.empty,
      db_artifacts = []\<rparr>"

section \<open>Project routes and the phase pipeline\<close>

text \<open>
  The handlers of \<open>/projects\<close> and \<open>/projects/{slug}\<close> and the orchestrator engine are
  outside the files embedded here; this section follows the spec (and the expectations of
  \<open>error-handling.test.ts\<close>) for them. The handlers are the logic that runs once the rate
  limiter has admitted the request.
\<close>

definition PHASES :: "string list" where
  "PHASES = [''ANALYSIS'', ''STACK_SELECTION'', ''SPEC'', ''DEPENDENCIES'', ''SOLUTIONING'', ''DONE'']"

fun position :: "string list \<Rightarrow> string \<Rightarrow> nat" where
  "position [] p = 0"
| "position (q # qs) p = (if q = p then 0 else Suc (position qs p))"

definition phase_index :: "string \<Rightarrow> nat" where
  "phase_index p = position PHASES p"

definition next_phase :: "string \<Rightarrow> string option" where
  \<comment> \<open>Modelled from the spec: "six states (the phase enum) with one legal successor each
      except the terminal state".\<close>
  "next_phase p = (case dropWhile (\<lambda>q. q \<noteq> p) PHASES of q # r # rest \<Rightarrow> Some r | _ \<Rightarrow> None)"

fun includes_text :: "string \<Rightarrow> string \<Rightarrow> bool" where
  \<comment> \<open>\<open>String.prototype.includes\<close>\<close>
  "includes_text [] sub = (sub = [])"
| "includes_text (c # cs) sub = (startsWith (c # cs) sub \<or> includes_text cs sub)"

definition new_project :: "string \<Rightarrow> string \<Rightarrow> string \<Rightarrow> string \<Rightarrow> string \<Rightarrow> project_metadata" where
  \<comment> \<open>Modelled from the spec: a project starts in the phase \<open>ANALYSIS\<close>, nothing completed,
      nothing approved.\<close>
  "new_project new_id slug n owner now =
     \<lparr>pid = new_id, pslug = slug, pname = n, description = [],
      current_phase = ''ANALYSIS'', phases_completed = [],
      stack_choice = None, stack_mode = None, platform_type = None,
      stack_approved = False, stack_approval_date = None, stack_reasoning = None,
      technical_preferences = [], custom_composition = None,
      dependencies_approved = False, created_by_id = owner,
      created_at = now, updated_at = now\<rparr>"

definition POST_projects ::
  "(string \<Rightarrow> string) \<Rightarrow> string \<Rightarrow> string \<Rightarrow> string \<Rightarrow> json option \<Rightarrow> store \<Rightarrow> response \<times> store" where
  \<comment> \<open>Modelled from the spec: the handler of \<open>POST /projects\<close> (\<open>projects/route.ts\<close>).
      "Submitting an empty or null project name always yields a 400 response with an error
      message containing required"; a created project answers 201 with a slug derived from
      the name (\<open>slugify\<close>); a failing store (here a slug already taken, or a body that is no
      JSON) answers 500.\<close>
  "POST_projects slugify new_id now owner request_json st =
     (case request_json of
        None \<Rightarrow> (server_error ''Failed to create project'', st)
      | Some parsed \<Rightarrow>
          (case field parsed ''name'' of
             Some (JStr n) \<Rightarrow>
               if n = [] then (json_response False (Some ''Project name is required'') 400, st)
               else if projects st (slugify n) \<noteq> None
                 then (server_error ''Failed to create project'', st)
               else (json_success ''Project created'' 201,
                     persistProjectToDB (slugify n) (new_project new_id (slugify n) n owner now)
                       (saveProjectMetadata (slugify n)
                          (new_project new_id (slugify n) n owner now) st))
           | _ \<Rightarrow> (json_response False (Some ''Project name is required'') 400, st)))"

definition GET_project :: "string \<Rightarrow> store \<Rightarrow> response \<times> store" where
  \<comment> \<open>Modelled from the spec: \<open>GET /projects/{slug}\<close>; an unknown project is a not-found
      error (404) in the envelope \<open>{success: false, error}\<close>.\<close>
  "GET_project slug st =
     (case getProjectMetadata st slug of
        None \<Rightarrow> (json_response False (Some ''Project not found'') 404, st)
      | Some metadata \<Rightarrow> (json_success ''Project retrieved'' 200, st))"

definition PUT_project :: "string \<Rightarrow> string \<Rightarrow> json option \<Rightarrow> store \<Rightarrow> response \<times> store" where
  \<comment> \<open>Modelled from the spec: \<open>PUT /projects/{slug}\<close> changes the display name and the
      description of an existing project.\<close>
  "PUT_project now slug request_json st =
     (case getProjectMetadata st slug of
        None \<Rightarrow> (json_response False (Some ''Project not found'') 404, st)
      | Some metadata \<Rightarrow>
          (case request_json of
             None \<Rightarrow> (server_error ''Failed to update project'', st)
           | Some parsed \<Rightarrow>
               (json_success ''Project updated'' 200,
                saveProjectMetadata slug
                  (metadata\<lparr>pname := (case field parsed ''name'' of
                                         Some (JStr n) \<Rightarrow> n | _ \<Rightarrow> pname metadata),
                            description := (case field parsed ''description'' of
                                              Some (JStr d) \<Rightarrow> d | _ \<Rightarrow> description metadata),
                            updated_at := now\<rparr>) st)))"

definition DELETE_project :: "string \<Rightarrow> store \<Rightarrow> response \<times> store" where
  \<comment> \<open>Modelled from the spec: \<open>DELETE /projects/{slug}\<close>; the deletion "cascades to
      artifacts".\<close>
  "DELETE_project slug st =
     (case getProjectMetadata st slug of
        None \<Rightarrow> (json_response False (Some ''Project not found'') 404, st)
      | Some metadata \<Rightarrow>
          (json_success ''Project deleted'' 200,
           st\<lparr>projects := (projects st)(slug := None),
              files := filter (\<lambda>a. art_project a \<noteq> slug) (files st),
              db_projects := (db_projects st)(slug := None),
              db_artifacts := filter (\<lambda>a. art_project a \<noteq> pid metadata) (db_artifacts st)\<rparr>))"

subsection \<open>Orchestrator engine\<close>

text \<open>
  A document is a name with its content. An executor takes the documents generated so far
  (the prior artifacts, then the outputs of the earlier executors of the same phase) and
  returns its documents, or fails with a message. The phase specification is static: the
  executors and the required artifacts of each phase.
\<close>

type_synonym document = "string \<times> string"

type_synonym executor = "document list \<Rightarrow> string + document list"

record phase_specification =
  executors_of :: "string \<Rightarrow> executor list"
  required_artifacts :: "string \<Rightarrow> string list"

datatype orchestration_error =
    UnknownPhase string
  | ProjectNotFound
  | PhaseNotCurrent
  | ExecutorFailed string

fun run_executors ::
  "executor list \<Rightarrow> document list \<Rightarrow> document list \<Rightarrow> nat \<Rightarrow> (string + document list) \<times> nat" where
  \<comment> \<open>Modelled from the spec: the executors of a phase run in sequence, each one seeing the
      outputs of the earlier ones; the first failure aborts the phase. The counter is the
      number of executors invoked.\<close>
  "run_executors [] prior outputs calls = (Inr outputs, calls)"
| "run_executors (e # es) prior outputs calls =
     (case e (prior @ outputs) of
        Inl err \<Rightarrow> (Inl err, Suc calls)
      | Inr docs \<Rightarrow> run_executors es prior (outputs @ docs) (Suc calls))"

definition prior_artifacts :: "store \<Rightarrow> string \<Rightarrow> document list" where
  \<comment> \<open>Modelled from the spec: the "accumulated prior artifacts" of the project.\<close>
  "prior_artifacts st slug =
     map (\<lambda>a. (art_name a, art_content a)) (filter (\<lambda>a. art_project a = slug) (files st))"

definition persist_documents :: "string \<Rightarrow> string \<Rightarrow> document list \<Rightarrow> store \<Rightarrow> store" where
  \<comment> \<open>Modelled from the spec: the generated documents of a phase are persisted as
      artifacts of that phase.\<close>
  "persist_documents slug phase docs st =
     foldl (\<lambda>s (name, content). writeArtifact slug phase name content s) st docs"

definition execute_phase ::
  "phase_specification \<Rightarrow> string \<Rightarrow> string \<Rightarrow> store \<Rightarrow>
   (orchestration_error + document list) \<times> nat \<times> store" where
  \<comment> \<open>Modelled from the spec: the orchestrator engine. "An unknown phase name is a fatal
      input error (rejected before any executor runs); an executor failure aborts the phase
      and is surfaced to the caller without partial persistence of that phase's artifacts."
      It executes the agents registered for the project's current phase. The result carries
      the number of executors invoked and the store afterwards.\<close>
  "execute_phase spec slug phase st =
     (if phase \<notin> set PHASES then (Inl (UnknownPhase phase), 0, st)
      else
        (case getProjectMetadata st slug of
           None \<Rightarrow> (Inl ProjectNotFound, 0, st)
         | Some metadata \<Rightarrow>
             if current_phase metadata \<noteq> phase then (Inl PhaseNotCurrent, 0, st)
             else
               (case run_executors (executors_of spec phase) (prior_artifacts st slug) [] 0 of
                  (Inl err, calls) \<Rightarrow> (Inl (ExecutorFailed err), calls, st)
                | (Inr docs, calls) \<Rightarrow> (Inr docs, calls, persist_documents slug phase docs st))))"

definition phase_complete :: "phase_specification \<Rightarrow> store \<Rightarrow> string \<Rightarrow> project_metadata \<Rightarrow> bool" where
  \<comment> \<open>Modelled from the spec: the transition trigger, "all required artifacts for the phase
      exist and are approved where required".\<close>
  "phase_complete spec st slug m =
     ((\<forall>n \<in> set (required_artifacts spec (current_phase m)).
          list_ex (\<lambda>a. art_project a = slug \<and> art_phase a = current_phase m \<and> art_name a = n)
            (files st))
      \<and> (current_phase m = ''STACK_SELECTION'' \<longrightarrow> stack_approved m)
      \<and> (current_phase m = ''DEPENDENCIES'' \<longrightarrow> dependencies_approved m))"

definition advance_phase :: "phase_specification \<Rightarrow> string \<Rightarrow> store \<Rightarrow> store" where
  \<comment> \<open>Modelled from the spec: the phase transition. A project whose current phase is
      complete moves to the successor of that phase; the terminal phase has none.\<close>
  "advance_phase spec slug st =
     (case getProjectMetadata st slug of
        None \<Rightarrow> st
      | Some m \<Rightarrow>
          (case next_phase (current_phase m) of
             None \<Rightarrow> st
           | Some successor \<Rightarrow>
               if phase_complete spec st slug m
               then saveProjectMetadata slug
                      (m\<lparr>current_phase := successor,
                         phases_completed := phases_completed m @ [current_phase m]\<rparr>) st
               else st))"

definition approve_dependencies ::
  "zod_lib \<Rightarrow> (json option \<Rightarrow> document \<times> document) \<Rightarrow> string \<Rightarrow> string \<Rightarrow> json option \<Rightarrow> store \<Rightarrow>
   response \<times> store" where
  \<comment> \<open>Modelled from the spec: the dependency approval handler (\<open>approve-dependencies\<close>). It
      validates the selection against \<open>ApproveDependenciesSchema\<close>, derives a decision record
      and a rationale record (\<open>derive\<close>), persists both and flags the project as approved.\<close>
  "approve_dependencies lib derive now slug request_json st =
     (case request_json of
        None \<Rightarrow> (server_error ''Failed to approve dependencies'', st)
      | Some parsed \<Rightarrow>
          (case safeParse lib ApproveDependenciesSchema (Some parsed) of
             Inl errors \<Rightarrow> (json_response False (Some ''Invalid input'') 400, st)
           | Inr data \<Rightarrow>
               (case getProjectMetadata st slug of
                  None \<Rightarrow> (json_response False (Some ''Project not found'') 404, st)
                | Some metadata \<Rightarrow>
                    (json_success ''Dependencies approved successfully'' 200,
                     saveProjectMetadata slug
                       (metadata\<lparr>dependencies_approved := True, updated_at := now\<rparr>)
                       (persist_documents slug ''DEPENDENCIES''
                          [fst (derive data), snd (derive data)] st)))))"

subsection \<open>Sequences of operations\<close>

record platform =
  pf_lib :: zod_lib
  pf_slugify :: "string \<Rightarrow> string"
  pf_phases :: phase_specification
  pf_dependency_docs :: "json option \<Rightarrow> document \<times> document"

datatype operation =
    CreateProject string string string "json option"
  | ExecutePhase string string
  | ApproveStack string bool bool session string "json option"
  | ApproveDependencies string string "json option"
  | AdvancePhase string

fun apply_operation :: "platform \<Rightarrow> operation \<Rightarrow> store \<Rightarrow> store" where
  "apply_operation pf (CreateProject new_id now owner request_json) st =
     snd (POST_projects (pf_slugify pf) new_id now owner request_json st)"
| "apply_operation pf (ExecutePhase slug phase) st =
     snd (snd (execute_phase (pf_phases pf) slug phase st))"
| "apply_operation pf (ApproveStack now fs_ok db_ok session slug request_json) st =
     snd (POST_approve_stack (pf_lib pf) now fs_ok db_ok session slug request_json st)"
| "apply_operation pf (ApproveDependencies now slug request_json) st =
     snd (approve_dependencies (pf_lib pf) (pf_dependency_docs pf) now slug request_json st)"
| "apply_operation pf (AdvancePhase slug) st = advance_phase (pf_phases pf) slug st"

fun run_operations :: "platform \<Rightarrow> operation list \<Rightarrow> store \<Rightarrow> store" where
  "run_operations pf [] st = st"
| "run_operations pf (op # ops) st = run_operations pf ops (apply_operation pf op st)"

definition empty_store :: store where
  "empty_store = \<lparr>projects = Map.empty, files = [], db_projects = Map.empty, db_artifacts = []\<rparr>"

definition phases_valid :: "store \<Rightarrow> bool" where
  "phases_valid st = (\<forall>slug m. projects st slug = Some m \<longrightarrow> current_phase m \<in> set PHASES)"

definition advances :: "store \<Rightarrow> store \<Rightarrow> bool" where
  \<comment> \<open>Every project of the first store is in the second, in the same or a later phase.\<close>
  "advances st st' =
     (\<forall>slug m. projects st slug = Some m \<longrightarrow>
        (\<exists>m'. projects st' slug = Some m'
              \<and> phase_index (current_phase m) \<le> phase_index (current_phase m')))"

text \<open>A sample platform: one analysis executor, and a slug that replaces blanks by dashes.\<close>

definition sample_phases :: phase_specification where
  "sample_phases =
     \<lparr>executors_of = (\<lambda>p. if p = ''ANALYSIS''
                           then [\<lambda>docs. Inr [(''project-brief.md'', ''# Brief'')]] else []),
      required_artifacts = (\<lambda>p. if p = ''ANALYSIS'' then [''project-brief.md''] else [])\<rparr>"

definition sample_platform :: platform where
  "sample_platform =
     \<lparr>pf_lib = sample_lib,
      pf_slugify = map (\<lambda>c. if c = CHR '' '' then CHR ''-'' else c),
      pf_phases = sample_phases,
      pf_dependency_docs = (\<lambda>d. ((''dependencies.md'', ''# Dependencies''),
                                  (''dependency-rationale.md'', ''# Rationale'')))\<rparr>"

definition sample_operations :: "operation list" where
  "sample_operations =
     [CreateProject ''p-1'' ''2025-01-01T00:00:00.000Z'' ''u1'' (Some (JObj [(''name'', JStr ''demo'')])),
      ExecutePhase ''demo'' ''ANALYSIS'',
      AdvancePhase ''demo'']"

section \<open>Properties\<close>

text \<open>
  C6. A successful artifact retrieval (status 200) carries a Content-Type fixed by the
  name's extension alone: \<open>application/json\<close> for \<open>.json\<close>, \<open>text/markdown\<close> for \<open>.md\<close>,
  \<open>text/plain\<close> otherwise, and its body is the stored content as \<open>readArtifact\<close> returned it.
\<close>

theorem artifact_get_content_type:
  assumes "status (GET_artifact gm ra slug phase name) = 200"
  shows "headers (GET_artifact gm ra slug phase name) ''Content-Type'' =
           Some (if endsWith name ''.json'' then ''application/json''
                 else if endsWith name ''.md'' then ''text/markdown''
                 else ''text/plain'')
         \<and> (\<exists>content. ra slug phase name = Inr content
              \<and> body (GET_artifact gm ra slug phase name) = Raw content)"
  using assms
  by (auto simp: GET_artifact_def json_response_def artifact_content_type_def
           split: sum.splits option.splits if_splits)

theorem artifact_get_content_type_witness:
  "status (GET_artifact (\<lambda>s. Inr (Some ())) (\<lambda>s p n. Inr ''# PRD'') ''demo'' ''SPEC'' ''PRD.md'') = 200
   \<and> headers (GET_artifact (\<lambda>s. Inr (Some ())) (\<lambda>s p n. Inr ''# PRD'') ''demo'' ''SPEC'' ''PRD.md'')
        ''Content-Type'' = Some ''text/markdown''
   \<and> body (GET_artifact (\<lambda>s. Inr (Some ())) (\<lambda>s p n. Inr ''# PRD'') ''demo'' ''SPEC'' ''PRD.md'')
        = Raw ''# PRD''"
proof -
  have h: "status (GET_artifact (\<lambda>s. Inr (Some ())) (\<lambda>s p n. Inr ''# PRD'')
             ''demo'' ''SPEC'' ''PRD.md'') = 200"
    by (simp add: GET_artifact_def header_value_ok_def)
  from artifact_get_content_type [OF h] h show ?thesis
    by (simp add: endsWith_def)
qed

lemma GET_artifact_unusable_name:
  "GET_artifact (\<lambda>s. Inr (Some ())) (\<lambda>s p n. Inr ''# PRD'') ''demo'' ''SPEC''
     (''PRD'' @ [CHR 0x0A] @ ''.md'')
   = json_response False (Some ''Artifact not found'') 404"
  by (simp add: GET_artifact_def header_value_ok_def)

lemma addSecurityHeaders_sets:
  "mw_headers (addSecurityHeaders node_env r) ''Content-Security-Policy'' = Some cspHeader"
  "mw_headers (addSecurityHeaders node_env r) ''X-Frame-Options'' = Some ''DENY''"
  "mw_headers (addSecurityHeaders node_env r) ''X-Content-Type-Options'' = Some ''nosniff''"
  "mw_headers (addSecurityHeaders node_env r) ''Referrer-Policy'' =
     Some ''strict-origin-when-cross-origin''"
  "mw_headers (addSecurityHeaders node_env r) ''Permissions-Policy'' = Some permissionsPolicy"
  "mw_headers (addSecurityHeaders node_env r) ''Cross-Origin-Embedder-Policy'' = Some ''require-corp''"
  "mw_headers (addSecurityHeaders node_env r) ''Cross-Origin-Opener-Policy'' = Some ''same-origin''"
  "mw_headers (addSecurityHeaders node_env r) ''Cross-Origin-Resource-Policy'' = Some ''same-origin''"
  by (simp_all add: addSecurityHeaders_def hset_def Let_def)

lemma addSecurityHeaders_hsts:
  "mw_headers (addSecurityHeaders node_env r) ''Strict-Transport-Security'' =
     (if node_env = Some ''production'' then Some hstsValue
      else mw_headers r ''Strict-Transport-Security'')"
  by (simp add: addSecurityHeaders_def hset_def Let_def)

lemma authMiddleware_cases:
  "authMiddleware node_env gs u c = addSecurityHeaders node_env NextResponse_next
   \<or> (\<exists>v. authMiddleware node_env gs u c = addSecurityHeaders node_env (NextResponse_redirect v))"
  by (auto simp: authMiddleware_def split: option.splits)

text \<open>
  C10. Whatever the path, the session and the cookie, the response of the auth middleware
  carries the Content-Security-Policy, \<open>X-Frame-Options: DENY\<close>,
  \<open>X-Content-Type-Options: nosniff\<close>, Referrer-Policy, Permissions-Policy and the three
  Cross-Origin policies; Strict-Transport-Security is present exactly when \<open>NODE_ENV\<close> is
  \<open>production\<close>.
\<close>

theorem authMiddleware_security_headers:
  "mw_headers (authMiddleware node_env gs u c) ''Content-Security-Policy'' = Some cspHeader
   \<and> mw_headers (authMiddleware node_env gs u c) ''X-Frame-Options'' = Some ''DENY''
   \<and> mw_headers (authMiddleware node_env gs u c) ''X-Content-Type-Options'' = Some ''nosniff''
   \<and> mw_headers (authMiddleware node_env gs u c) ''Referrer-Policy''
        = Some ''strict-origin-when-cross-origin''
   \<and> mw_headers (authMiddleware node_env gs u c) ''Permissions-Policy'' = Some permissionsPolicy
   \<and> mw_headers (authMiddleware node_env gs u c) ''Cross-Origin-Embedder-Policy''
        = Some ''require-corp''
   \<and> mw_headers (authMiddleware node_env gs u c) ''Cross-Origin-Opener-Policy''
        = Some ''same-origin''
   \<and> mw_headers (authMiddleware node_env gs u c) ''Cross-Origin-Resource-Policy''
        = Some ''same-origin''
   \<and> mw_headers (authMiddleware node_env gs u c) ''Strict-Transport-Security''
        = (if node_env = Some ''production'' then Some hstsValue else None)"
proof -
  from authMiddleware_cases [of node_env gs u c]
  obtain r where r: "authMiddleware node_env gs u c = addSecurityHeaders node_env r"
    and fresh: "mw_headers r ''Strict-Transport-Security'' = None"
    by (auto simp: NextResponse_next_def NextResponse_redirect_def)
  show ?thesis
    unfolding r by (simp add: addSecurityHeaders_sets addSecurityHeaders_hsts fresh)
qed

lemma authMiddleware_plain_no_policy:
  "mw_headers (authMiddleware_plain gs u c) ''Content-Security-Policy'' = None"
  by (simp add: authMiddleware_plain_def NextResponse_next_def NextResponse_redirect_def
      split: option.splits)

subsection \<open>Admin role changes\<close>

lemma truthy_JStr_own: "truthy (Some (JStr s)) \<Longrightarrow> s \<noteq> []"
  by simp

lemma field_Some_not_JNull: "field b k = Some v \<Longrightarrow> b \<noteq> JNull"
  by (cases b) auto

lemma PATCH_self_demotion:
  assumes "user_role s = ''super_admin''"
    and "field b ''userId'' = Some (JStr (user_id s))"
    and "field b ''role'' \<noteq> Some (JStr ''super_admin'')"
  shows "status (fst (PATCH_admin_users isa sel upd s (Some b))) = 400
         \<and> snd (PATCH_admin_users isa sel upd s (Some b)) = []"
proof -
  from assms(2) have "b \<noteq> JNull" by (rule field_Some_not_JNull)
  then show ?thesis using assms
    by (cases b)
       (auto simp: PATCH_admin_users_def Let_def json_response_def undefined_to_null_def)
qed

lemma PATCH_assign_super_admin:
  assumes "\<not> isa s"
    and "truthy (field b ''userId'')"
    and "field b ''role'' = Some (JStr ''super_admin'')"
  shows "status (fst (PATCH_admin_users isa sel upd s (Some b))) = 403
         \<and> snd (PATCH_admin_users isa sel upd s (Some b)) = []"
proof -
  from assms(3) have "b \<noteq> JNull" by (rule field_Some_not_JNull)
  then show ?thesis using assms
    by (cases b)
       (auto simp: PATCH_admin_users_def Let_def json_response_def undefined_to_null_def)
qed

lemma PATCH_modify_super_admin:
  assumes "\<not> isa s" and "user_role s \<noteq> ''super_admin''"
    and "field b ''userId'' = Some uid" and "truthy (Some uid)"
    and "field b ''role'' \<in> {Some (JStr ''user''), Some (JStr ''admin''), Some (JStr ''super_admin'')}"
    and "sel uid = Inr (Some ''super_admin'')"
  shows "status (fst (PATCH_admin_users isa sel upd s (Some b))) = 403
         \<and> snd (PATCH_admin_users isa sel upd s (Some b)) = []"
proof -
  from assms(3) have "b \<noteq> JNull" by (rule field_Some_not_JNull)
  then show ?thesis using assms
    by (cases b)
       (auto simp: PATCH_admin_users_def Let_def json_response_def undefined_to_null_def)
qed

lemma PATCH_rejection_no_update:
  assumes "status (fst (PATCH_admin_users isa sel upd s rq)) \<in> {400, 403}"
  shows "snd (PATCH_admin_users isa sel upd s rq) = []"
  using assms
  by (auto simp: PATCH_admin_users_def Let_def json_response_def json_success_def server_error_def
           split: option.splits json.splits sum.splits if_splits)

text \<open>
  C9 (as amended). A super admin (session role \<open>super_admin\<close>) who targets the own user id
  with any role other than \<open>super_admin\<close> gets 400 and no update is issued. A requester who
  is not a super admin gets 403 and no update when the request names a user id and asks for
  the role \<open>super_admin\<close>, and when a request with a user id and one of the three valid roles
  targets a user whose stored role is \<open>super_admin\<close>. No request answered with 400 or 403
  issues an update.
\<close>

theorem admin_patch_role_guards:
  "(user_role s = ''super_admin'' \<and> field b ''userId'' = Some (JStr (user_id s))
      \<and> field b ''role'' \<noteq> Some (JStr ''super_admin'')
    \<longrightarrow> status (fst (PATCH_admin_users isa sel upd s (Some b))) = 400
        \<and> snd (PATCH_admin_users isa sel upd s (Some b)) = [])
   \<and> (\<not> isa s \<and> truthy (field b ''userId'') \<and> field b ''role'' = Some (JStr ''super_admin'')
    \<longrightarrow> status (fst (PATCH_admin_users isa sel upd s (Some b))) = 403
        \<and> snd (PATCH_admin_users isa sel upd s (Some b)) = [])
   \<and> (\<not> isa s \<and> user_role s \<noteq> ''super_admin''
      \<and> field b ''userId'' = Some uid \<and> truthy (Some uid)
      \<and> field b ''role'' \<in> {Some (JStr ''user''), Some (JStr ''admin''), Some (JStr ''super_admin'')}
      \<and> sel uid = Inr (Some ''super_admin'')
    \<longrightarrow> status (fst (PATCH_admin_users isa sel upd s (Some b))) = 403
        \<and> snd (PATCH_admin_users isa sel upd s (Some b)) = [])
   \<and> (status (fst (PATCH_admin_users isa sel upd s rq)) \<in> {400, 403}
    \<longrightarrow> snd (PATCH_admin_users isa sel upd s rq) = [])"
proof (intro conjI impI; (elim conjE)?)
  assume "user_role s = ''super_admin''" and "field b ''userId'' = Some (JStr (user_id s))"
    and "field b ''role'' \<noteq> Some (JStr ''super_admin'')"
  then show "status (fst (PATCH_admin_users isa sel upd s (Some b))) = 400"
    and "snd (PATCH_admin_users isa sel upd s (Some b)) = []"
    using PATCH_self_demotion [of s b isa sel upd] by simp_all
next
  assume "\<not> isa s" and "truthy (field b ''userId'')"
    and "field b ''role'' = Some (JStr ''super_admin'')"
  then show "status (fst (PATCH_admin_users isa sel upd s (Some b))) = 403"
    and "snd (PATCH_admin_users isa sel upd s (Some b)) = []"
    using PATCH_assign_super_admin [of isa s b sel upd] by simp_all
next
  assume "\<not> isa s" and "user_role s \<noteq> ''super_admin''"
    and "field b ''userId'' = Some uid" and "truthy (Some uid)"
    and "field b ''role'' \<in> {Some (JStr ''user''), Some (JStr ''admin''), Some (JStr ''super_admin'')}"
    and "sel uid = Inr (Some ''super_admin'')"
  then show "status (fst (PATCH_admin_users isa sel upd s (Some b))) = 403"
    and "snd (PATCH_admin_users isa sel upd s (Some b)) = []"
    using PATCH_modify_super_admin [of isa s b uid sel upd] by simp_all
next
  assume "status (fst (PATCH_admin_users isa sel upd s rq)) \<in> {400, 403}"
  then show "snd (PATCH_admin_users isa sel upd s rq) = []"
    by (rule PATCH_rejection_no_update)
qed

theorem admin_patch_role_guards_witness:
  "PATCH_admin_users role_is_super_admin sample_select update_succeeds
     \<lparr>user_id = ''u2'', user_role = ''super_admin''\<rparr> (Some (role_request ''u2'' ''admin''))
     = (json_response False (Some ''Cannot demote yourself from super admin'') 400, [])
   \<and> PATCH_admin_users role_is_super_admin sample_select update_succeeds
     \<lparr>user_id = ''u3'', user_role = ''admin''\<rparr> (Some (role_request ''u1'' ''super_admin''))
     = (json_response False (Some ''Only super admins can assign super admin role'') 403, [])
   \<and> PATCH_admin_users role_is_super_admin sample_select update_succeeds
     \<lparr>user_id = ''u3'', user_role = ''admin''\<rparr> (Some (role_request ''u2'' ''user''))
     = (json_response False (Some ''Cannot modify super admin users'') 403, [])"
proof -
  let ?sa = "\<lparr>user_id = ''u2'', user_role = ''super_admin''\<rparr>"
  let ?ad = "\<lparr>user_id = ''u3'', user_role = ''admin''\<rparr>"
  have a: "status (fst (PATCH_admin_users role_is_super_admin sample_select update_succeeds
             ?sa (Some (role_request ''u2'' ''admin'')))) = 400
           \<and> snd (PATCH_admin_users role_is_super_admin sample_select update_succeeds
             ?sa (Some (role_request ''u2'' ''admin''))) = []"
    using admin_patch_role_guards [of ?sa "role_request ''u2'' ''admin''" role_is_super_admin
        sample_select update_succeeds]
    by (simp add: role_request_def)
  have b: "status (fst (PATCH_admin_users role_is_super_admin sample_select update_succeeds
             ?ad (Some (role_request ''u1'' ''super_admin'')))) = 403
           \<and> snd (PATCH_admin_users role_is_super_admin sample_select update_succeeds
             ?ad (Some (role_request ''u1'' ''super_admin''))) = []"
    using admin_patch_role_guards [of ?ad "role_request ''u1'' ''super_admin''" role_is_super_admin
        sample_select update_succeeds]
    by (simp add: role_request_def role_is_super_admin_def)
  have c: "status (fst (PATCH_admin_users role_is_super_admin sample_select update_succeeds
             ?ad (Some (role_request ''u2'' ''user'')))) = 403
           \<and> snd (PATCH_admin_users role_is_super_admin sample_select update_succeeds
             ?ad (Some (role_request ''u2'' ''user''))) = []"
    using admin_patch_role_guards [of ?ad "role_request ''u2'' ''user''" role_is_super_admin
        sample_select update_succeeds "JStr ''u2''"]
    by (simp add: role_request_def role_is_super_admin_def sample_select_def)
  from a b c show ?thesis
    by (simp add: PATCH_admin_users_def role_request_def role_is_super_admin_def
        sample_select_def Let_def json_response_def undefined_to_null_def)
qed

text \<open>
  The claim as first stated fails: an admin who is no super admin asks for the unknown role
  \<open>owner\<close> on the super admin \<open>u2\<close>; the role check answers 400 before the target is read.
\<close>

theorem admin_patch_invalid_role_counterexample:
  "\<not> role_is_super_admin \<lparr>user_id = ''u3'', user_role = ''admin''\<rparr>
   \<and> sample_select (JStr ''u2'') = Inr (Some ''super_admin'')
   \<and> PATCH_admin_users role_is_super_admin sample_select update_succeeds
        \<lparr>user_id = ''u3'', user_role = ''admin''\<rparr> (Some (role_request ''u2'' ''owner''))
      = (json_response False (Some ''Invalid role'') 400, [])
   \<and> status (fst (PATCH_admin_users role_is_super_admin sample_select update_succeeds
        \<lparr>user_id = ''u3'', user_role = ''admin''\<rparr> (Some (role_request ''u2'' ''owner''))))
      \<noteq> 403"
  by (simp add: PATCH_admin_users_def role_request_def role_is_super_admin_def
      sample_select_def Let_def json_response_def undefined_to_null_def)

subsection \<open>Schemas\<close>

lemma parse_object_field_issue:
  assumes "(k, s) \<in> set shape"
    and "issues (parse lib s (p @ [Key k]) (field (JObj kvs) k)) \<noteq> []"
  shows "issues (parse lib (ZObject shape) p (Some (JObj kvs))) \<noteq> []"
proof -
  let ?rs = "map (\<lambda>(k, s). (k, parse lib s (p @ [Key k]) (field (JObj kvs) k))) shape"
  from assms(1) have "(k, parse lib s (p @ [Key k]) (field (JObj kvs) k)) \<in> set ?rs"
    by force
  with assms(2) have "concat (map (issues \<circ> snd) ?rs) \<noteq> []"
    by force
  then show ?thesis
    by (simp add: Let_def del: field.simps)
qed

lemma issues_safeParse: "issues (parse lib schema [] v) \<noteq> [] \<Longrightarrow> isl (safeParse lib schema v)"
  by (cases "parse lib schema [] v"; cases "issues (parse lib schema [] v)")
     (auto simp: safeParse_def split: list.splits)

lemma parse_string_mismatch:
  "(\<forall>t. v \<noteq> Some (JStr t)) \<Longrightarrow> issues (parse lib (ZString cs) p v) \<noteq> []"
  by (cases v; cases "the v") auto

lemma parse_object_mismatch:
  "(\<forall>kvs. v \<noteq> Some (JObj kvs)) \<Longrightarrow> issues (parse lib (ZObject shape) p v) \<noteq> []"
  by (cases v; cases "the v") auto

lemma field_Some_obj: "field b k = Some v \<Longrightarrow> \<exists>kvs. b = JObj kvs"
  by (cases b) auto

lemma parse_shape_field_issue:
  assumes "(k, s) \<in> set (shape_of schema)"
    and "issues (parse lib s [Key k] (field (JObj kvs) k)) \<noteq> []"
  shows "isl (safeParse lib schema (Some (JObj kvs)))"
proof -
  from assms(1) obtain shape where sch: "schema = ZObject shape" and mem: "(k, s) \<in> set shape"
    by (cases schema) auto
  from parse_object_field_issue [OF mem, of lib "[]" kvs] assms(2)
  have "issues (parse lib schema [] (Some (JObj kvs))) \<noteq> []"
    unfolding sch by simp
  then show ?thesis by (rule issues_safeParse)
qed

subsection \<open>Environment\<close>

lemma field_process_env: "field (process_env vars) k = map_option JStr (getenv vars k)"
  by (simp add: process_env_def getenv_def rev_map map_of_map)

lemma load_env_field_issue:
  assumes "(k, s) \<in> set (shape_of envSchema)"
    and "issues (parse lib s [Key k] (map_option JStr (getenv vars k))) \<noteq> []"
  shows "load_env lib vars = Exit 1"
proof -
  have "isl (safeParse lib envSchema (Some (JObj (map (\<lambda>(k, v). (k, JStr v)) vars))))"
    using assms field_process_env [of vars k]
    by (intro parse_shape_field_issue [where k = k and s = s]) (simp_all add: process_env_def)
  then show ?thesis
    by (auto simp: load_env_def process_env_def split: sum.splits)
qed

lemma envSchema_DATABASE_URL:
  "(''DATABASE_URL'',
    ZRefine (ZString [Url (Some ''DATABASE_URL must be a valid URL'')]) is_postgres_url
      ''DATABASE_URL must be a PostgreSQL connection string'') \<in> set (shape_of envSchema)"
  by (simp add: envSchema_def)

lemma envSchema_BETTER_AUTH_SECRET:
  "(''BETTER_AUTH_SECRET'',
    ZOptional (ZString [Min 32 ''BETTER_AUTH_SECRET must be at least 32 characters'']))
   \<in> set (shape_of envSchema)"
  by (simp add: envSchema_def)

lemma envSchema_AUTH_SECRET:
  "(''AUTH_SECRET'', ZOptional (ZString [Min 32 ''AUTH_SECRET must be at least 32 characters'']))
   \<in> set (shape_of envSchema)"
  by (simp add: envSchema_def)

lemma envSchema_GEMINI_API_KEY:
  "(''GEMINI_API_KEY'', ZString [Min 1 ''GEMINI_API_KEY is required for LLM functionality''])
   \<in> set (shape_of envSchema)"
  by (simp add: envSchema_def)

lemma envSchema_NEXT_PUBLIC_APP_URL:
  "(''NEXT_PUBLIC_APP_URL'', ZString [Url (Some ''NEXT_PUBLIC_APP_URL must be a valid URL'')])
   \<in> set (shape_of envSchema)"
  by (simp add: envSchema_def)

lemma load_env_required_missing:
  assumes "k \<in> {''DATABASE_URL'', ''GEMINI_API_KEY'', ''NEXT_PUBLIC_APP_URL''}"
    and "getenv vars k = None"
  shows "load_env lib vars = Exit 1"
proof -
  consider "k = ''DATABASE_URL''" | "k = ''GEMINI_API_KEY''" | "k = ''NEXT_PUBLIC_APP_URL''"
    using assms(1) by blast
  then show ?thesis
  proof cases
    case 1
    show ?thesis
      by (rule load_env_field_issue [OF envSchema_DATABASE_URL])
         (use assms(2) 1 in \<open>simp add: invalid_type_issue_def\<close>)
  next
    case 2
    show ?thesis
      by (rule load_env_field_issue [OF envSchema_GEMINI_API_KEY])
         (use assms(2) 2 in \<open>simp add: invalid_type_issue_def\<close>)
  next
    case 3
    show ?thesis
      by (rule load_env_field_issue [OF envSchema_NEXT_PUBLIC_APP_URL])
         (use assms(2) 3 in \<open>simp add: invalid_type_issue_def\<close>)
  qed
qed

lemma load_env_database_url:
  assumes "getenv vars ''DATABASE_URL'' = Some u"
    and "\<not> is_url lib u \<or> \<not> (startsWith u ''postgres'' \<or> startsWith u ''postgresql'')"
  shows "load_env lib vars = Exit 1"
  by (rule load_env_field_issue [OF envSchema_DATABASE_URL])
     (use assms in \<open>auto simp: is_postgres_url_def\<close>)

lemma load_env_gemini_empty:
  assumes "getenv vars ''GEMINI_API_KEY'' = Some []"
  shows "load_env lib vars = Exit 1"
  by (rule load_env_field_issue [OF envSchema_GEMINI_API_KEY]) (use assms in simp)

lemma load_env_app_url:
  assumes "getenv vars ''NEXT_PUBLIC_APP_URL'' = Some u" and "\<not> is_url lib u"
  shows "load_env lib vars = Exit 1"
  by (rule load_env_field_issue [OF envSchema_NEXT_PUBLIC_APP_URL]) (use assms in simp)

lemma load_env_short_secret:
  assumes "k \<in> {''BETTER_AUTH_SECRET'', ''AUTH_SECRET''}"
    and "getenv vars k = Some t" and "length t < 32"
  shows "load_env lib vars = Exit 1"
proof -
  consider "k = ''BETTER_AUTH_SECRET''" | "k = ''AUTH_SECRET''"
    using assms(1) by blast
  then show ?thesis
  proof cases
    case 1
    show ?thesis
      by (rule load_env_field_issue [OF envSchema_BETTER_AUTH_SECRET])
         (use assms 1 in simp)
  next
    case 2
    show ?thesis
      by (rule load_env_field_issue [OF envSchema_AUTH_SECRET])
         (use assms 2 in simp)
  qed
qed

text \<open>
  C7 (as amended). The environment is validated when the module is loaded, and the process
  exits with status 1 when the database connection string, the generative-API key or the
  public app URL is missing, when the connection string is no URL or no PostgreSQL URL, when
  the API key is empty, when the app URL is no URL, and when an auth secret is set to fewer
  than 32 characters. (A missing auth secret does not stop the start; see the sample below.)
\<close>

theorem load_env_exits_on_invalid:
  "(k \<in> {''DATABASE_URL'', ''GEMINI_API_KEY'', ''NEXT_PUBLIC_APP_URL''} \<and> getenv vars k = None
      \<longrightarrow> load_env lib vars = Exit 1)
   \<and> (getenv vars ''DATABASE_URL'' = Some u
        \<and> (\<not> is_url lib u \<or> \<not> (startsWith u ''postgres'' \<or> startsWith u ''postgresql''))
      \<longrightarrow> load_env lib vars = Exit 1)
   \<and> (getenv vars ''GEMINI_API_KEY'' = Some [] \<longrightarrow> load_env lib vars = Exit 1)
   \<and> (getenv vars ''NEXT_PUBLIC_APP_URL'' = Some u \<and> \<not> is_url lib u
      \<longrightarrow> load_env lib vars = Exit 1)
   \<and> (k \<in> {''BETTER_AUTH_SECRET'', ''AUTH_SECRET''} \<and> getenv vars k = Some t \<and> length t < 32
      \<longrightarrow> load_env lib vars = Exit 1)"
proof (intro conjI impI; (elim conjE)?)
  assume "k \<in> {''DATABASE_URL'', ''GEMINI_API_KEY'', ''NEXT_PUBLIC_APP_URL''}"
    and "getenv vars k = None"
  then show "load_env lib vars = Exit 1" by (rule load_env_required_missing)
next
  assume "getenv vars ''DATABASE_URL'' = Some u"
    and "\<not> is_url lib u \<or> \<not> (startsWith u ''postgres'' \<or> startsWith u ''postgresql'')"
  then show "load_env lib vars = Exit 1" by (rule load_env_database_url)
next
  assume "getenv vars ''GEMINI_API_KEY'' = Some []"
  then show "load_env lib vars = Exit 1" by (rule load_env_gemini_empty)
next
  assume "getenv vars ''NEXT_PUBLIC_APP_URL'' = Some u" and "\<not> is_url lib u"
  then show "load_env lib vars = Exit 1" by (rule load_env_app_url)
next
  assume "k \<in> {''BETTER_AUTH_SECRET'', ''AUTH_SECRET''}"
    and "getenv vars k = Some t" and "length t < 32"
  then show "load_env lib vars = Exit 1" by (rule load_env_short_secret)
qed

theorem load_env_exits_on_invalid_witness:
  "load_env sample_lib [] = Exit 1
   \<and> load_env sample_lib [(''DATABASE_URL'', ''mysql://db.example.com/spec'')] = Exit 1
   \<and> load_env sample_lib [(''GEMINI_API_KEY'', [])] = Exit 1
   \<and> load_env sample_lib [(''NEXT_PUBLIC_APP_URL'', ''localhost'')] = Exit 1
   \<and> load_env sample_lib (sample_env @ [(''AUTH_SECRET'', ''too-short'')]) = Exit 1"
proof -
  have a: "load_env sample_lib [] = Exit 1"
    using load_env_exits_on_invalid [of "''DATABASE_URL''" "[]" sample_lib]
    by (simp add: getenv_def)
  have b: "load_env sample_lib [(''DATABASE_URL'', ''mysql://db.example.com/spec'')] = Exit 1"
    using load_env_exits_on_invalid
      [of _ "[(''DATABASE_URL'', ''mysql://db.example.com/spec'')]" sample_lib
          "''mysql://db.example.com/spec''"]
    by (simp add: getenv_def sample_lib_def startsWith_def)
  have c: "load_env sample_lib [(''GEMINI_API_KEY'', [])] = Exit 1"
    using load_env_exits_on_invalid [of _ "[(''GEMINI_API_KEY'', [])]" sample_lib]
    by (simp add: getenv_def)
  have d: "load_env sample_lib [(''NEXT_PUBLIC_APP_URL'', ''localhost'')] = Exit 1"
    using load_env_exits_on_invalid
      [of _ "[(''NEXT_PUBLIC_APP_URL'', ''localhost'')]" sample_lib "''localhost''"]
    by (simp add: getenv_def sample_lib_def startsWith_def)
  have e: "load_env sample_lib (sample_env @ [(''AUTH_SECRET'', ''too-short'')]) = Exit 1"
    using load_env_exits_on_invalid
      [of "''AUTH_SECRET''" "sample_env @ [(''AUTH_SECRET'', ''too-short'')]" sample_lib _
          "''too-short''"]
    by (simp add: getenv_def)
  from a b c d e show ?thesis by simp
qed

text \<open>
  The claim as first stated fails: with neither \<open>BETTER_AUTH_SECRET\<close> nor \<open>AUTH_SECRET\<close>
  set, the schema (both are \<open>optional\<close>) accepts the environment and the process starts.
\<close>

theorem load_env_missing_secret_counterexample:
  "getenv sample_env ''BETTER_AUTH_SECRET'' = None
   \<and> getenv sample_env ''AUTH_SECRET'' = None
   \<and> load_env sample_lib sample_env =
       Started (Some (JObj
         [(''DATABASE_URL'', JStr ''postgresql://app@db.example.com/spec''),
          (''GEMINI_API_KEY'', JStr ''k-123''),
          (''NEXT_PUBLIC_APP_URL'', JStr ''http://localhost:3000''),
          (''ALLOWED_ORIGINS'', JStr ''http://localhost:3000''),
          (''NODE_ENV'', JStr ''development''),
          (''LOG_LEVEL'', JStr ''info''),
          (''LOG_AGGREGATION_ENABLED'', JBool False)]))"
  by code_simp

lemma sample_env_secret_checked_late:
  "(case load_env sample_lib sample_env of
      Exit n \<Rightarrow> False
    | Started env \<Rightarrow> getJWTSecret env = Inl 1)"
  by code_simp

subsection \<open>Approval schemas\<close>

lemma nested_required:
  assumes sub: "(sub, ZOptional (ZObject shape)) \<in> set (shape_of schema)"
    and k: "(k, ZString cs) \<in> set shape"
    and opt: "field b sub = Some opt"
    and miss: "\<forall>t. field opt k \<noteq> Some (JStr t)"
  shows "isl (safeParse lib schema (Some b))"
proof -
  from opt obtain kvs where b: "b = JObj kvs" by (auto dest: field_Some_obj)
  have "issues (parse lib (ZObject shape) [Key sub] (Some opt)) \<noteq> []"
  proof (cases "\<exists>kvs'. opt = JObj kvs'")
    case True
    then obtain kvs' where o: "opt = JObj kvs'" ..
    from miss have "issues (parse lib (ZString cs) ([Key sub] @ [Key k]) (field (JObj kvs') k)) \<noteq> []"
      unfolding o by (rule parse_string_mismatch)
    from parse_object_field_issue [OF k this] show ?thesis by (simp add: o)
  next
    case False
    then show ?thesis by (intro parse_object_mismatch) simp
  qed
  then have "issues (parse lib (ZOptional (ZObject shape)) [Key sub] (field (JObj kvs) sub)) \<noteq> []"
    using opt b by simp
  from parse_shape_field_issue [OF sub this] show ?thesis by (simp add: b)
qed

lemma four_choices_option:
  "k \<in> {''frontend'', ''backend'', ''database'', ''deployment''} \<Longrightarrow>
   (k, ZString []) \<in> set (shape_of DependencyOptionSchema)"
  by (auto simp: DependencyOptionSchema_def)

lemma four_choices_customStack:
  "k \<in> {''frontend'', ''backend'', ''database'', ''deployment''} \<Longrightarrow>
   (k, ZString []) \<in> set (shape_of CustomStackSchema)"
  by (auto simp: CustomStackSchema_def)

lemma deps_option_member:
  "(''option'', ZOptional (ZObject (shape_of DependencyOptionSchema)))
   \<in> set (shape_of ApproveDependenciesSchema)"
  by (simp add: ApproveDependenciesSchema_def DependencyOptionSchema_def)

lemma deps_customStack_member:
  "(''customStack'', ZOptional (ZObject (shape_of CustomStackSchema)))
   \<in> set (shape_of ApproveDependenciesSchema)"
  by (simp add: ApproveDependenciesSchema_def CustomStackSchema_def)

lemma deps_requires_choice:
  assumes "k \<in> {''frontend'', ''backend'', ''database'', ''deployment''}"
    and "sub \<in> {''option'', ''customStack''}"
    and "field b sub = Some opt" and "\<forall>t. field opt k \<noteq> Some (JStr t)"
  shows "isl (safeParse lib ApproveDependenciesSchema (Some b))"
proof -
  consider "sub = ''option''" | "sub = ''customStack''" using assms(2) by blast
  then show ?thesis
  proof cases
    case 1
    show ?thesis
      by (rule nested_required [OF deps_option_member four_choices_option [OF assms(1)]])
         (use assms(3,4) 1 in simp_all)
  next
    case 2
    show ?thesis
      by (rule nested_required [OF deps_customStack_member four_choices_customStack [OF assms(1)]])
         (use assms(3,4) 2 in simp_all)
  qed
qed

lemma field_issue_rejected:
  assumes "(k, s) \<in> set (shape_of schema)"
    and "field b k = Some v"
    and "issues (parse lib s [Key k] (Some v)) \<noteq> []"
  shows "isl (safeParse lib schema (Some b))"
proof -
  from assms(2) obtain kvs where b: "b = JObj kvs" by (auto dest: field_Some_obj)
  from assms(2,3) have "issues (parse lib s [Key k] (field (JObj kvs) k)) \<noteq> []"
    unfolding b by simp
  from parse_shape_field_issue [OF assms(1) this] show ?thesis unfolding b .
qed

lemma notes_bounded:
  assumes "field b ''notes'' = Some (JStr t)" and "2000 < length t"
  shows "isl (safeParse lib ApproveDependenciesSchema (Some b))"
  by (rule field_issue_rejected [where k = "''notes''" and v = "JStr t" and s =
        "ZOptional (ZString [Max 2000 ''Notes must not exceed 2000 characters'', Trim])"])
     (use assms in \<open>simp_all add: ApproveDependenciesSchema_def\<close>)

lemma reasoning_bounded:
  assumes "field b ''reasoning'' = Some (JStr t)" and "2000 < length t"
  shows "isl (safeParse lib ApproveStackSchema (Some b))"
  by (rule field_issue_rejected [where k = "''reasoning''" and v = "JStr t" and s =
        "ZDefault (ZOptional (ZString [Max 2000 ''Reasoning must not exceed 2000 characters'', Trim]))
           (JStr [])"])
     (use assms in \<open>simp_all add: ApproveStackSchema_def\<close>)

lemma stack_choice_member:
  "(''stack_choice'', ZString [Min 1 ''Stack choice is required'', Trim])
   \<in> set (shape_of ApproveStackSchema)"
  by (simp add: ApproveStackSchema_def)

lemma stack_choice_required:
  assumes "(\<forall>t. field b ''stack_choice'' \<noteq> Some (JStr t)) \<or> field b ''stack_choice'' = Some (JStr [])"
  shows "isl (safeParse lib ApproveStackSchema (Some b))"
proof (cases "\<exists>kvs. b = JObj kvs")
  case True
  then obtain kvs where b: "b = JObj kvs" ..
  have "issues (parse lib (ZString [Min 1 ''Stack choice is required'', Trim]) [Key ''stack_choice'']
          (field (JObj kvs) ''stack_choice'')) \<noteq> []"
    using assms
  proof
    assume "\<forall>t. field b ''stack_choice'' \<noteq> Some (JStr t)"
    then show ?thesis unfolding b by (rule parse_string_mismatch)
  next
    assume "field b ''stack_choice'' = Some (JStr [])"
    then show ?thesis unfolding b by simp
  qed
  from parse_shape_field_issue [OF stack_choice_member this] show ?thesis unfolding b .
next
  case False
  then have "issues (parse lib ApproveStackSchema [] (Some b)) \<noteq> []"
    unfolding ApproveStackSchema_def by (intro parse_object_mismatch) simp
  then show ?thesis by (rule issues_safeParse)
qed

text \<open>
  C8 (as amended). The four choices \<open>frontend\<close>, \<open>backend\<close>, \<open>database\<close> and \<open>deployment\<close>
  are required texts of the \<open>option\<close> and \<open>customStack\<close> objects of a dependency approval:
  a submission that carries one of these objects without one of the four is rejected. The
  free texts \<open>notes\<close> and \<open>reasoning\<close> are rejected beyond 2000 characters, and a stack
  approval without a non-empty \<open>stack_choice\<close> is rejected.
\<close>

theorem approval_schemas_validate:
  "(k \<in> {''frontend'', ''backend'', ''database'', ''deployment''}
      \<and> sub \<in> {''option'', ''customStack''}
      \<and> field b sub = Some opt \<and> (\<forall>t. field opt k \<noteq> Some (JStr t))
    \<longrightarrow> isl (safeParse lib ApproveDependenciesSchema (Some b)))
   \<and> (field b ''notes'' = Some (JStr t) \<and> 2000 < length t
    \<longrightarrow> isl (safeParse lib ApproveDependenciesSchema (Some b)))
   \<and> (field b ''reasoning'' = Some (JStr t) \<and> 2000 < length t
    \<longrightarrow> isl (safeParse lib ApproveStackSchema (Some b)))
   \<and> ((\<forall>t. field b ''stack_choice'' \<noteq> Some (JStr t)) \<or> field b ''stack_choice'' = Some (JStr [])
    \<longrightarrow> isl (safeParse lib ApproveStackSchema (Some b)))"
proof (intro conjI impI; (elim conjE)?)
  assume "k \<in> {''frontend'', ''backend'', ''database'', ''deployment''}"
    and "sub \<in> {''option'', ''customStack''}"
    and "field b sub = Some opt" and "\<forall>t. field opt k \<noteq> Some (JStr t)"
  then show "isl (safeParse lib ApproveDependenciesSchema (Some b))"
    by (rule deps_requires_choice)
next
  assume "field b ''notes'' = Some (JStr t)" and "2000 < length t"
  then show "isl (safeParse lib ApproveDependenciesSchema (Some b))"
    by (rule notes_bounded)
next
  assume "field b ''reasoning'' = Some (JStr t)" and "2000 < length t"
  then show "isl (safeParse lib ApproveStackSchema (Some b))"
    by (rule reasoning_bounded)
next
  assume "(\<forall>t. field b ''stack_choice'' \<noteq> Some (JStr t)) \<or> field b ''stack_choice'' = Some (JStr [])"
  then show "isl (safeParse lib ApproveStackSchema (Some b))"
    by (rule stack_choice_required)
qed

theorem approval_schemas_validate_witness:
  "isl (safeParse sample_lib ApproveDependenciesSchema
          (Some (JObj [(''customStack'', JObj [(''frontend'', JStr ''Next.js'')])])))
   \<and> isl (safeParse sample_lib ApproveDependenciesSchema
          (Some (JObj [(''notes'', JStr (replicate 2001 CHR ''a''))])))
   \<and> isl (safeParse sample_lib ApproveStackSchema
          (Some (JObj [(''stack_choice'', JStr ''nextjs''),
                       (''reasoning'', JStr (replicate 2001 CHR ''a''))])))
   \<and> isl (safeParse sample_lib ApproveStackSchema (Some (JObj [(''stack_choice'', JStr [])])))"
proof -
  have a: "isl (safeParse sample_lib ApproveDependenciesSchema
             (Some (JObj [(''customStack'', JObj [(''frontend'', JStr ''Next.js'')])])))"
    using approval_schemas_validate
      [of "''backend''" "''customStack''"
          "JObj [(''customStack'', JObj [(''frontend'', JStr ''Next.js'')])]"
          "JObj [(''frontend'', JStr ''Next.js'')]" sample_lib]
    by simp
  have b: "isl (safeParse sample_lib ApproveDependenciesSchema
             (Some (JObj [(''notes'', JStr (replicate 2001 CHR ''a''))])))"
    using approval_schemas_validate
      [of _ _ "JObj [(''notes'', JStr (replicate 2001 CHR ''a''))]" _ sample_lib
          "replicate 2001 CHR ''a''"]
    by simp
  have c: "isl (safeParse sample_lib ApproveStackSchema
             (Some (JObj [(''stack_choice'', JStr ''nextjs''),
                          (''reasoning'', JStr (replicate 2001 CHR ''a''))])))"
    using approval_schemas_validate
      [of _ _ "JObj [(''stack_choice'', JStr ''nextjs''),
                     (''reasoning'', JStr (replicate 2001 CHR ''a''))]" _ sample_lib
          "replicate 2001 CHR ''a''"]
    by simp
  have d: "isl (safeParse sample_lib ApproveStackSchema (Some (JObj [(''stack_choice'', JStr [])])))"
    using approval_schemas_validate [of _ _ "JObj [(''stack_choice'', JStr [])]" _ sample_lib]
    by simp
  from a b c d show ?thesis by simp
qed

text \<open>
  The claim as first stated fails: a dependency approval that names none of the four
  choices, and a stack approval that has only its \<open>stack_choice\<close>, are both accepted.
\<close>

theorem approval_without_choices_counterexample:
  "field (JObj [(''mode'', JStr ''custom''), (''notes'', JStr ''ship it'')]) ''frontend'' = None
   \<and> field (JObj [(''mode'', JStr ''custom''), (''notes'', JStr ''ship it'')]) ''option'' = None
   \<and> field (JObj [(''mode'', JStr ''custom''), (''notes'', JStr ''ship it'')]) ''customStack'' = None
   \<and> safeParse sample_lib ApproveDependenciesSchema
        (Some (JObj [(''mode'', JStr ''custom''), (''notes'', JStr ''ship it'')]))
      = Inr (Some (JObj [(''notes'', JStr ''ship it''), (''mode'', JStr ''custom'')]))
   \<and> safeParse sample_lib ApproveStackSchema (Some (JObj [(''stack_choice'', JStr ''nextjs'')]))
      = Inr (Some (JObj [(''stack_choice'', JStr ''nextjs''), (''reasoning'', JStr [])]))"
  by code_simp

subsection \<open>Stack approval\<close>

lemma foldr_max_ge: "x \<in> set xs \<Longrightarrow> x \<le> foldr max xs (0::nat)"
  by (induction xs) (auto simp: max_def)

lemma next_version_gt:
  assumes "a \<in> set arts" and "same_document proj phase name a"
  shows "art_version a < next_version arts proj phase name"
proof -
  from assms have "art_version a \<in> set (map art_version (filter (same_document proj phase name) arts))"
    by simp
  from foldr_max_ge [OF this] show ?thesis
    by (simp add: next_version_def)
qed

lemma next_version_other:
  "\<not> same_document proj phase name a \<Longrightarrow>
   next_version (arts @ [a]) proj phase name = next_version arts proj phase name"
  by (simp add: next_version_def)

lemma new_version_fresh:
  "\<lparr>art_project = proj, art_phase = phase, art_name = name, art_content = content,
    art_version = next_version arts proj phase name\<rparr> \<notin> set arts"
proof
  let ?a = "\<lparr>art_project = proj, art_phase = phase, art_name = name, art_content = content,
            art_version = next_version arts proj phase name\<rparr>"
  assume "?a \<in> set arts"
  moreover have "same_document proj phase name ?a"
    by (simp add: same_document_def)
  ultimately have "art_version ?a < next_version arts proj phase name"
    by (rule next_version_gt)
  then show False by simp
qed

lemma write_pair:
  "files (writeArtifact s ph ''stack-rationale.md'' c2
           (writeArtifact s ph ''stack-decision.md'' c1 st))
   = files st @
       [\<lparr>art_project = s, art_phase = ph, art_name = ''stack-decision.md'', art_content = c1,
         art_version = next_version (files st) s ph ''stack-decision.md''\<rparr>,
        \<lparr>art_project = s, art_phase = ph, art_name = ''stack-rationale.md'', art_content = c2,
         art_version = next_version (files st) s ph ''stack-rationale.md''\<rparr>]"
  by (simp add: writeArtifact_def add_version_def next_version_other same_document_def)

lemma save_pair:
  "db_artifacts (saveArtifact p ph ''stack-rationale.md'' c2
                  (saveArtifact p ph ''stack-decision.md'' c1 st))
   = db_artifacts st @
       [\<lparr>art_project = p, art_phase = ph, art_name = ''stack-decision.md'', art_content = c1,
         art_version = next_version (db_artifacts st) p ph ''stack-decision.md''\<rparr>,
        \<lparr>art_project = p, art_phase = ph, art_name = ''stack-rationale.md'', art_content = c2,
         art_version = next_version (db_artifacts st) p ph ''stack-rationale.md''\<rparr>]"
  by (simp add: saveArtifact_def add_version_def next_version_other same_document_def)

lemma saveArtifact_files: "files (saveArtifact p ph n c st) = files st"
  by (simp add: saveArtifact_def)

lemma writeArtifact_db: "db_artifacts (writeArtifact s ph n c st) = db_artifacts st"
  by (simp add: writeArtifact_def)

lemma writeArtifact_db_projects: "db_projects (writeArtifact s ph n c st) = db_projects st"
  by (simp add: writeArtifact_def)

lemma saveArtifact_db_projects: "db_projects (saveArtifact p ph n c st) = db_projects st"
  by (simp add: saveArtifact_def)

lemma approve_stack_response:
  assumes "projects st slug = Some m" and "created_by_id m = user_id session"
    and "safeParse lib ApproveStackSchema (Some b) = Inr data"
  shows "fst (POST_approve_stack lib now True db_ok session slug (Some b) st)
         = json_success ''Stack selection approved successfully'' 200"
  using assms
  by (simp add: POST_approve_stack_def getProjectMetadata_def Let_def split: option.splits)

lemma approve_stack_metadata:
  assumes "projects st slug = Some m" and "created_by_id m = user_id session"
    and "safeParse lib ApproveStackSchema (Some b) = Inr data"
  shows "projects (snd (POST_approve_stack lib now True db_ok session slug (Some b) st))
         = (projects st)(slug \<mapsto>
             m\<lparr>stack_choice := Some (or_else (text_field data ''stack_choice'') []),
               stack_mode := Some ''template'',
               platform_type := text_field data ''platform'',
               stack_approved := True,
               stack_approval_date := Some now,
               stack_reasoning := Some (or_else (text_field data ''reasoning'') []),
               technical_preferences := [],
               custom_composition := None,
               created_by_id := user_id session,
               updated_at := now\<rparr>)"
    and "db_projects (snd (POST_approve_stack lib now True db_ok session slug (Some b) st))
         = (db_projects st)(slug \<mapsto>
             m\<lparr>stack_choice := Some (or_else (text_field data ''stack_choice'') []),
               stack_mode := Some ''template'',
               platform_type := text_field data ''platform'',
               stack_approved := True,
               stack_approval_date := Some now,
               stack_reasoning := Some (or_else (text_field data ''reasoning'') []),
               technical_preferences := [],
               custom_composition := None,
               created_by_id := user_id session,
               updated_at := now\<rparr>)"
  using assms
  by (simp_all add: POST_approve_stack_def getProjectMetadata_def Let_def persistProjectToDB_def
        saveProjectMetadata_def writeArtifact_def saveArtifact_def split: option.splits)

lemma approve_stack_files:
  assumes "projects st slug = Some m" and "created_by_id m = user_id session"
    and "safeParse lib ApproveStackSchema (Some b) = Inr data"
  shows "files (snd (POST_approve_stack lib now True db_ok session slug (Some b) st)) =
           files st @
             [\<lparr>art_project = slug, art_phase = ''STACK_SELECTION'',
               art_name = ''stack-decision.md'',
               art_content = generateStackDecisionContent now ''template''
                  (or_else (text_field data ''stack_choice'') [])
                  (or_else (text_field data ''reasoning'') []) None None None,
               art_version = next_version (files st) slug ''STACK_SELECTION'' ''stack-decision.md''\<rparr>,
              \<lparr>art_project = slug, art_phase = ''STACK_SELECTION'',
               art_name = ''stack-rationale.md'',
               art_content = generateStackRationaleContent now ''template''
                  (or_else (text_field data ''stack_choice'') [])
                  (or_else (text_field data ''reasoning'') []) None,
               art_version = next_version (files st) slug ''STACK_SELECTION'' ''stack-rationale.md''\<rparr>]"
proof -
  have "files (snd (POST_approve_stack lib now True db_ok session slug (Some b) st)) =
          files (writeArtifact slug ''STACK_SELECTION'' ''stack-rationale.md''
                   (generateStackRationaleContent now ''template''
                      (or_else (text_field data ''stack_choice'') [])
                      (or_else (text_field data ''reasoning'') []) None)
                   (writeArtifact slug ''STACK_SELECTION'' ''stack-decision.md''
                      (generateStackDecisionContent now ''template''
                         (or_else (text_field data ''stack_choice'') [])
                         (or_else (text_field data ''reasoning'') []) None None None) st))"
    using assms
    by (simp add: POST_approve_stack_def getProjectMetadata_def Let_def persistProjectToDB_def
          saveProjectMetadata_def saveArtifact_files split: option.splits)
  then show ?thesis by (simp only: write_pair)
qed

lemma approve_stack_db:
  assumes "projects st slug = Some m" and "created_by_id m = user_id session"
    and "safeParse lib ApproveStackSchema (Some b) = Inr data"
  shows "db_artifacts (snd (POST_approve_stack lib now True db_ok session slug (Some b) st)) =
           (case db_projects st slug of
              None \<Rightarrow> db_artifacts st
            | Some dbProject \<Rightarrow>
                if db_ok then
                  db_artifacts st @
                    [\<lparr>art_project = pid dbProject, art_phase = ''STACK_SELECTION'',
                      art_name = ''stack-decision.md'',
                      art_content = generateStackDecisionContent now ''template''
                         (or_else (text_field data ''stack_choice'') [])
                         (or_else (text_field data ''reasoning'') []) None None None,
                      art_version = next_version (db_artifacts st) (pid dbProject)
                                      ''STACK_SELECTION'' ''stack-decision.md''\<rparr>,
                     \<lparr>art_project = pid dbProject, art_phase = ''STACK_SELECTION'',
                      art_name = ''stack-rationale.md'',
                      art_content = generateStackRationaleContent now ''template''
                         (or_else (text_field data ''stack_choice'') [])
                         (or_else (text_field data ''reasoning'') []) None,
                      art_version = next_version (db_artifacts st) (pid dbProject)
                                      ''STACK_SELECTION'' ''stack-rationale.md''\<rparr>]
                else db_artifacts st)"
proof -
  let ?d = "generateStackDecisionContent now ''template''
              (or_else (text_field data ''stack_choice'') [])
              (or_else (text_field data ''reasoning'') []) None None None"
  let ?r = "generateStackRationaleContent now ''template''
              (or_else (text_field data ''stack_choice'') [])
              (or_else (text_field data ''reasoning'') []) None"
  let ?st2 = "writeArtifact slug ''STACK_SELECTION'' ''stack-rationale.md'' ?r
                (writeArtifact slug ''STACK_SELECTION'' ''stack-decision.md'' ?d st)"
  have "db_artifacts (snd (POST_approve_stack lib now True db_ok session slug (Some b) st)) =
          (case db_projects st slug of
             None \<Rightarrow> db_artifacts st
           | Some dbProject \<Rightarrow>
               if db_ok then
                 db_artifacts (saveArtifact (pid dbProject) ''STACK_SELECTION''
                                 ''stack-rationale.md'' ?r
                                 (saveArtifact (pid dbProject) ''STACK_SELECTION''
                                    ''stack-decision.md'' ?d ?st2))
               else db_artifacts st)"
    using assms
    by (simp add: POST_approve_stack_def getProjectMetadata_def Let_def persistProjectToDB_def
          saveProjectMetadata_def writeArtifact_db writeArtifact_db_projects
          split: option.splits)
  then show ?thesis
    by (simp only: save_pair writeArtifact_db)
qed

text \<open>
  C5. When the owner of a project sends a valid stack approval and the file writes go
  through (in particular for a project whose stack is approved already), the request
  succeeds; the stored metadata is the earlier metadata with \<open>stack_approved\<close> set to true and
  the choice, mode, platform, reasoning and dates of this request; the stored documents are
  all the earlier ones, unchanged and in place, followed by a new \<open>stack-decision.md\<close> and a
  new \<open>stack-rationale.md\<close> of the phase \<open>STACK_SELECTION\<close> that hold the texts generated for
  this request, were not stored before and carry a version above every earlier version of
  the same document; and the relational store keeps every earlier document and, when the
  project is known there and the write succeeds, gains the same pair.
\<close>

theorem reapproval_keeps_documents:
  assumes "projects st slug = Some m" and "created_by_id m = user_id session"
    and "safeParse lib ApproveStackSchema (Some b) = Inr data"
  shows
    "let choice = or_else (text_field data ''stack_choice'') [];
         reasoning = or_else (text_field data ''reasoning'') [];
         decision = generateStackDecisionContent now ''template'' choice reasoning None None None;
         rationale = generateStackRationaleContent now ''template'' choice reasoning None;
         updated = m\<lparr>stack_choice := Some choice, stack_mode := Some ''template'',
                     platform_type := text_field data ''platform'', stack_approved := True,
                     stack_approval_date := Some now, stack_reasoning := Some reasoning,
                     technical_preferences := [], custom_composition := None,
                     created_by_id := user_id session, updated_at := now\<rparr>;
         d = \<lparr>art_project = slug, art_phase = ''STACK_SELECTION'',
              art_name = ''stack-decision.md'', art_content = decision,
              art_version = next_version (files st) slug ''STACK_SELECTION'' ''stack-decision.md''\<rparr>;
         r = \<lparr>art_project = slug, art_phase = ''STACK_SELECTION'',
              art_name = ''stack-rationale.md'', art_content = rationale,
              art_version = next_version (files st) slug ''STACK_SELECTION'' ''stack-rationale.md''\<rparr>;
         res = POST_approve_stack lib now True db_ok session slug (Some b) st
     in fst res = json_success ''Stack selection approved successfully'' 200
        \<and> projects (snd res) = (projects st)(slug \<mapsto> updated)
        \<and> db_projects (snd res) = (db_projects st)(slug \<mapsto> updated)
        \<and> stack_approved updated
        \<and> files (snd res) = files st @ [d, r]
        \<and> d \<notin> set (files st) \<and> r \<notin> set (files st)
        \<and> (\<forall>a \<in> set (files st).
              (same_document slug ''STACK_SELECTION'' ''stack-decision.md'' a
                 \<longrightarrow> art_version a < art_version d)
              \<and> (same_document slug ''STACK_SELECTION'' ''stack-rationale.md'' a
                 \<longrightarrow> art_version a < art_version r))
        \<and> db_artifacts (snd res) =
            (case db_projects st slug of
               None \<Rightarrow> db_artifacts st
             | Some dbProject \<Rightarrow>
                 if db_ok then
                   db_artifacts st @
                     [\<lparr>art_project = pid dbProject, art_phase = ''STACK_SELECTION'',
                       art_name = ''stack-decision.md'', art_content = decision,
                       art_version = next_version (db_artifacts st) (pid dbProject)
                                       ''STACK_SELECTION'' ''stack-decision.md''\<rparr>,
                      \<lparr>art_project = pid dbProject, art_phase = ''STACK_SELECTION'',
                       art_name = ''stack-rationale.md'', art_content = rationale,
                       art_version = next_version (db_artifacts st) (pid dbProject)
                                       ''STACK_SELECTION'' ''stack-rationale.md''\<rparr>]
                 else db_artifacts st)"
proof -
  note h = assms
  have v: "\<And>a n. a \<in> set (files st) \<Longrightarrow> same_document slug ''STACK_SELECTION'' n a \<Longrightarrow>
             art_version a < next_version (files st) slug ''STACK_SELECTION'' n"
    by (rule next_version_gt)
  have flag: "\<And>x. stack_approved (x\<lparr>stack_approved := True, stack_approval_date := Some now,
                  stack_reasoning := Some (or_else (text_field data ''reasoning'') []),
                  technical_preferences := [], custom_composition := None,
                  created_by_id := user_id session, updated_at := now\<rparr>)"
    by simp
  have ver: "\<And>p ph n c k. art_version \<lparr>art_project = p, art_phase = ph, art_name = n,
                  art_content = c, art_version = k\<rparr> = k"
    by simp
  show ?thesis
    unfolding Let_def
    by (intro conjI ballI impI)
       (simp_all only: approve_stack_response [OF h] approve_stack_metadata [OF h]
          approve_stack_files [OF h] approve_stack_db [OF h] new_version_fresh
          not_False_eq_True v flag ver)
qed

theorem reapproval_keeps_documents_witness:
  "projects demo_store ''demo'' = Some demo_metadata \<and> stack_approved demo_metadata
   \<and> fst (POST_approve_stack sample_lib ''2025-02-01T10:00:00.000Z'' True True
             \<lparr>user_id = ''u1'', user_role = ''user''\<rparr> ''demo''
             (Some (JObj [(''stack_choice'', JStr ''nextjs'')])) demo_store)
       = json_success ''Stack selection approved successfully'' 200
   \<and> map_option stack_approved
        (projects (snd (POST_approve_stack sample_lib ''2025-02-01T10:00:00.000Z'' True True
             \<lparr>user_id = ''u1'', user_role = ''user''\<rparr> ''demo''
             (Some (JObj [(''stack_choice'', JStr ''nextjs'')])) demo_store)) ''demo'')
       = Some True
   \<and> files (snd (POST_approve_stack sample_lib ''2025-02-01T10:00:00.000Z'' True True
             \<lparr>user_id = ''u1'', user_role = ''user''\<rparr> ''demo''
             (Some (JObj [(''stack_choice'', JStr ''nextjs'')])) demo_store))
       = files demo_store @
           [\<lparr>art_project = ''demo'', art_phase = ''STACK_SELECTION'',
             art_name = ''stack-decision.md'',
             art_content = generateStackDecisionContent ''2025-02-01T10:00:00.000Z'' ''template''
                             ''nextjs'' [] None None None,
             art_version = 2\<rparr>,
            \<lparr>art_project = ''demo'', art_phase = ''STACK_SELECTION'',
             art_name = ''stack-rationale.md'',
             art_content = generateStackRationaleContent ''2025-02-01T10:00:00.000Z'' ''template''
                             ''nextjs'' [] None,
             art_version = 2\<rparr>]"
proof -
  have h1: "projects demo_store ''demo'' = Some demo_metadata"
    by (simp add: demo_store_def)
  have h2: "stack_approved demo_metadata"
    by (simp add: demo_metadata_def)
  have h3: "created_by_id demo_metadata = user_id \<lparr>user_id = ''u1'', user_role = ''user''\<rparr>"
    by (simp add: demo_metadata_def)
  have h4: "safeParse sample_lib ApproveStackSchema (Some (JObj [(''stack_choice'', JStr ''nextjs'')]))
            = Inr (Some (JObj [(''stack_choice'', JStr ''nextjs''), (''reasoning'', JStr [])]))"
    by code_simp
  have c: "or_else (text_field (Some (JObj [(''stack_choice'', JStr ''nextjs''),
                                            (''reasoning'', JStr [])])) ''stack_choice'') []
           = ''nextjs''"
    "or_else (text_field (Some (JObj [(''stack_choice'', JStr ''nextjs''),
                                      (''reasoning'', JStr [])])) ''reasoning'') [] = []"
    by (simp_all add: text_field_def or_else_def undefined_to_null_def)
  have n: "next_version (files demo_store) ''demo'' ''STACK_SELECTION'' ''stack-decision.md'' = 2"
    "next_version (files demo_store) ''demo'' ''STACK_SELECTION'' ''stack-rationale.md'' = 2"
    by (simp_all add: demo_store_def next_version_def same_document_def)
  from reapproval_keeps_documents [OF h1 h3 h4, of "''2025-02-01T10:00:00.000Z''" True]
  show ?thesis
    using h1 h2 by (simp add: Let_def c n)
qed

subsection \<open>Phases\<close>

lemma next_phase_forward:
  "next_phase p = Some q \<Longrightarrow> q \<in> set PHASES \<and> p \<in> set PHASES \<and> phase_index p < phase_index q"
  by (auto simp: next_phase_def PHASES_def phase_index_def split: if_splits)

lemma advances_refl: "advances st st"
  by (simp add: advances_def)

lemma advances_trans: "advances a b \<Longrightarrow> advances b c \<Longrightarrow> advances a c"
  unfolding advances_def by (meson le_trans)

lemma advances_same_projects: "projects st' = projects st \<Longrightarrow> advances st st'"
  by (simp add: advances_def)

lemma valid_same_projects: "projects st' = projects st \<Longrightarrow> phases_valid st \<Longrightarrow> phases_valid st'"
  by (simp add: phases_valid_def)

lemma projects_writeArtifact [simp]: "projects (writeArtifact s ph n c st) = projects st"
  by (simp add: writeArtifact_def)

lemma projects_saveArtifact [simp]: "projects (saveArtifact p ph n c st) = projects st"
  by (simp add: saveArtifact_def)

lemma projects_persistProjectToDB [simp]: "projects (persistProjectToDB s m st) = projects st"
  by (simp add: persistProjectToDB_def)

lemma projects_saveProjectMetadata [simp]:
  "projects (saveProjectMetadata s m st) = (projects st)(s \<mapsto> m)"
  by (simp add: saveProjectMetadata_def)

lemma projects_persist_documents [simp]: "projects (persist_documents s ph docs st) = projects st"
proof -
  have "projects (foldl (\<lambda>s' (name, content). writeArtifact s ph name content s') st docs)
        = projects st"
    by (induction docs arbitrary: st) (auto simp: case_prod_beta)
  then show ?thesis by (simp add: persist_documents_def)
qed

lemma create_step:
  "advances st (snd (POST_projects slugify new_id now owner rq st))
   \<and> (phases_valid st \<longrightarrow> phases_valid (snd (POST_projects slugify new_id now owner rq st)))"
  by (auto simp: POST_projects_def advances_def phases_valid_def new_project_def PHASES_def
           split: option.splits json.splits)

lemma execute_step:
  "projects (snd (snd (execute_phase spec slug phase st))) = projects st"
  by (auto simp: execute_phase_def split: option.splits sum.splits prod.splits)

lemma approve_stack_step:
  "advances st (snd (POST_approve_stack lib now fs_ok db_ok session slug rq st))
   \<and> (phases_valid st
      \<longrightarrow> phases_valid (snd (POST_approve_stack lib now fs_ok db_ok session slug rq st)))"
  by (auto simp: POST_approve_stack_def getProjectMetadata_def Let_def advances_def
        phases_valid_def
      split: option.splits sum.splits)

lemma approve_dependencies_step:
  "advances st (snd (approve_dependencies lib derive now slug rq st))
   \<and> (phases_valid st \<longrightarrow> phases_valid (snd (approve_dependencies lib derive now slug rq st)))"
  by (auto simp: approve_dependencies_def getProjectMetadata_def advances_def phases_valid_def
      split: option.splits sum.splits)

lemma advance_step:
  "advances st (advance_phase spec slug st)
   \<and> (phases_valid st \<longrightarrow> phases_valid (advance_phase spec slug st))"
  by (auto simp: advance_phase_def getProjectMetadata_def advances_def phases_valid_def
      split: option.splits dest: next_phase_forward)

lemma operation_step:
  "advances st (apply_operation pf op st)
   \<and> (phases_valid st \<longrightarrow> phases_valid (apply_operation pf op st))"
proof (cases op)
  case (CreateProject new_id now owner rq)
  then show ?thesis using create_step by simp
next
  case (ExecutePhase slug phase)
  then show ?thesis
    using execute_step [of "pf_phases pf" slug phase st]
    by (auto intro: advances_same_projects valid_same_projects)
next
  case (ApproveStack now fs_ok db_ok session slug rq)
  then show ?thesis using approve_stack_step by simp
next
  case (ApproveDependencies now slug rq)
  then show ?thesis using approve_dependencies_step by simp
next
  case (AdvancePhase slug)
  then show ?thesis using advance_step by simp
qed

lemma run_operations_steps:
  "advances st (run_operations pf ops st)
   \<and> (phases_valid st \<longrightarrow> phases_valid (run_operations pf ops st))"
proof (induction ops arbitrary: st)
  case Nil
  then show ?case by (simp add: advances_refl)
next
  case (Cons op ops)
  from operation_step [of st pf op] Cons.IH [of "apply_operation pf op st"]
  show ?case by (auto intro: advances_trans)
qed

lemma run_operations_append:
  "run_operations pf (ops @ later) st = run_operations pf later (run_operations pf ops st)"
  by (induction ops arbitrary: st) simp_all

lemma phases_valid_empty: "phases_valid empty_store"
  by (simp add: phases_valid_def empty_store_def)

text \<open>
  C1. Starting from the empty store and running any operations (project creation, phase
  execution, stack and dependency approval, phase transition), every project's
  \<open>current_phase\<close> is one of the six phases; and when further operations follow, every project
  is still there in the same or a later phase of the fixed ordering.
\<close>

theorem current_phase_forward_only:
  "(\<forall>slug m. projects (run_operations pf ops empty_store) slug = Some m
      \<longrightarrow> current_phase m \<in> set PHASES)
   \<and> (\<forall>slug m. projects (run_operations pf ops empty_store) slug = Some m
      \<longrightarrow> (\<exists>m'. projects (run_operations pf (ops @ later) empty_store) slug = Some m'
               \<and> phase_index (current_phase m) \<le> phase_index (current_phase m')))"
proof -
  from run_operations_steps [of empty_store pf ops] phases_valid_empty
  have "phases_valid (run_operations pf ops empty_store)" by simp
  moreover from run_operations_steps [of "run_operations pf ops empty_store" pf later]
  have "advances (run_operations pf ops empty_store) (run_operations pf (ops @ later) empty_store)"
    by (simp add: run_operations_append)
  ultimately show ?thesis
    unfolding phases_valid_def advances_def by blast
qed

theorem current_phase_forward_only_witness:
  "projects (run_operations sample_platform [hd sample_operations] empty_store) ''demo''
     = Some (new_project ''p-1'' ''demo'' ''demo'' ''u1'' ''2025-01-01T00:00:00.000Z'')
   \<and> ''ANALYSIS'' \<in> set PHASES
   \<and> (\<exists>m'. projects (run_operations sample_platform sample_operations empty_store) ''demo''
             = Some m'
           \<and> phase_index ''ANALYSIS'' \<le> phase_index (current_phase m'))
   \<and> map_option current_phase
        (projects (run_operations sample_platform sample_operations empty_store) ''demo'')
      = Some ''STACK_SELECTION''"
proof -
  have c: "projects (run_operations sample_platform [hd sample_operations] empty_store) ''demo''
           = Some (new_project ''p-1'' ''demo'' ''demo'' ''u1'' ''2025-01-01T00:00:00.000Z'')"
    by (simp add: sample_operations_def sample_platform_def POST_projects_def empty_store_def)
  have e: "map_option current_phase
             (projects (run_operations sample_platform sample_operations empty_store) ''demo'')
           = Some ''STACK_SELECTION''"
    by code_simp
  note t = current_phase_forward_only
    [of sample_platform "[hd sample_operations]" "tl sample_operations"]
  have ops: "[hd sample_operations] @ tl sample_operations = sample_operations"
    by (simp add: sample_operations_def)
  from t [THEN conjunct1, rule_format, OF c]
  have p1: "''ANALYSIS'' \<in> set PHASES"
    by (simp add: new_project_def)
  from t [THEN conjunct2, rule_format, OF c]
  have p2: "\<exists>m'. projects (run_operations sample_platform sample_operations empty_store) ''demo''
                  = Some m'
                \<and> phase_index ''ANALYSIS'' \<le> phase_index (current_phase m')"
    unfolding ops by (simp add: new_project_def)
  from c p1 p2 e show ?thesis by (intro conjI)
qed

subsection \<open>Unknown phase\<close>

text \<open>
  C2. A phase name that is none of the six is rejected as the input error \<open>UnknownPhase\<close>
  with no executor invoked and the store as it was; as an operation it leaves the store
  unchanged.
\<close>

theorem unknown_phase_rejected:
  assumes "phase \<notin> set PHASES"
  shows "execute_phase spec slug phase st = (Inl (UnknownPhase phase), 0, st)
         \<and> apply_operation pf (ExecutePhase slug phase) st = st"
  using assms by (simp add: execute_phase_def)

theorem unknown_phase_rejected_witness:
  "''DEPLOY'' \<notin> set PHASES
   \<and> execute_phase sample_phases ''demo'' ''DEPLOY'' demo_store
       = (Inl (UnknownPhase ''DEPLOY''), 0, demo_store)
   \<and> apply_operation sample_platform (ExecutePhase ''demo'' ''DEPLOY'') demo_store = demo_store"
proof -
  have h: "''DEPLOY'' \<notin> set PHASES" by (simp add: PHASES_def)
  from unknown_phase_rejected [OF h, of sample_phases "''demo''" demo_store sample_platform] h
  show ?thesis by simp
qed

subsection \<open>Project routes\<close>

lemma CreateProjectSchema_name:
  "(''name'', ZString [Min 1 ''Project name is required'',
                       Max 100 ''Project name must not exceed 100 characters'', Trim])
   \<in> set (shape_of CreateProjectSchema)"
  by (simp add: CreateProjectSchema_def)

lemma CreateProjectSchema_rejects_empty_or_null:
  assumes "field b ''name'' = Some (JStr []) \<or> field b ''name'' = Some JNull"
  shows "isl (safeParse lib CreateProjectSchema (Some b))"
  using assms
proof
  assume "field b ''name'' = Some (JStr [])"
  then show ?thesis
    by (rule field_issue_rejected [OF CreateProjectSchema_name]) simp
next
  assume "field b ''name'' = Some JNull"
  then show ?thesis
    by (rule field_issue_rejected [OF CreateProjectSchema_name]) simp
qed

lemma CreateProjectSchema_issue_texts:
  "safeParse sample_lib CreateProjectSchema (Some (JObj [(''name'', JStr [])]))
     = Inl [\<lparr>code = too_small, path = [Key ''name''], message = ''Project name is required''\<rparr>]"
  "safeParse sample_lib CreateProjectSchema (Some (JObj [(''name'', JNull)]))
     = Inl [\<lparr>code = invalid_type, path = [Key ''name''],
             message = ''Expected string, received null''\<rparr>]"
  by code_simp+

lemma includes_required: "includes_text ''Project name is required'' ''required''"
  by (simp add: startsWith_def)

text \<open>
  C3. A \<open>POST /projects\<close> whose body has the empty string or \<open>null\<close> as \<open>name\<close> is answered
  with status 400 and an error message that contains \<open>required\<close>, and nothing is stored.
\<close>

theorem empty_or_null_name_rejected:
  assumes "field b ''name'' = Some (JStr []) \<or> field b ''name'' = Some JNull"
  shows "status (fst (POST_projects slugify new_id now owner (Some b) st)) = 400
    \<and> (\<exists>msg. error (body (fst (POST_projects slugify new_id now owner (Some b) st))) = Some msg
             \<and> includes_text msg ''required'')
    \<and> snd (POST_projects slugify new_id now owner (Some b) st) = st"
  using assms includes_required
  by (auto simp: POST_projects_def json_response_def)

theorem empty_or_null_name_rejected_witness:
  "POST_projects (pf_slugify sample_platform) ''p-2'' ''2025-01-01T00:00:00.000Z'' ''u1''
     (Some (JObj [(''name'', JStr [])])) demo_store
     = (json_response False (Some ''Project name is required'') 400, demo_store)
   \<and> POST_projects (pf_slugify sample_platform) ''p-2'' ''2025-01-01T00:00:00.000Z'' ''u1''
     (Some (JObj [(''name'', JNull)])) demo_store
     = (json_response False (Some ''Project name is required'') 400, demo_store)"
proof -
  have a: "status (fst (POST_projects (pf_slugify sample_platform) ''p-2''
             ''2025-01-01T00:00:00.000Z'' ''u1'' (Some (JObj [(''name'', JStr [])])) demo_store))
           = 400"
    using empty_or_null_name_rejected
      [of "JObj [(''name'', JStr [])]" "pf_slugify sample_platform" "''p-2''"
          "''2025-01-01T00:00:00.000Z''" "''u1''" demo_store]
    by simp
  have b: "status (fst (POST_projects (pf_slugify sample_platform) ''p-2''
             ''2025-01-01T00:00:00.000Z'' ''u1'' (Some (JObj [(''name'', JNull)])) demo_store))
           = 400"
    using empty_or_null_name_rejected
      [of "JObj [(''name'', JNull)]" "pf_slugify sample_platform" "''p-2''"
          "''2025-01-01T00:00:00.000Z''" "''u1''" demo_store]
    by simp
  from a b show ?thesis
    by (simp add: POST_projects_def)
qed

text \<open>
  C4. For a slug that names no project, \<open>GET\<close>, \<open>PUT\<close> and \<open>DELETE\<close> on \<open>/projects/{slug}\<close>
  each answer 404 with \<open>success: false\<close> and leave the store as it was; the artifact route
  answers the same way.
\<close>

theorem unknown_project_not_found:
  assumes "projects st slug = None"
  shows "status (fst (GET_project slug st)) = 404
    \<and> success (body (fst (GET_project slug st))) = False
    \<and> status (fst (PUT_project now slug rq st)) = 404
    \<and> success (body (fst (PUT_project now slug rq st))) = False
    \<and> status (fst (DELETE_project slug st)) = 404
    \<and> success (body (fst (DELETE_project slug st))) = False
    \<and> snd (GET_project slug st) = st \<and> snd (PUT_project now slug rq st) = st
    \<and> snd (DELETE_project slug st) = st
    \<and> status (GET_artifact (\<lambda>s. Inr (getProjectMetadata st s)) ra slug phase name) = 404
    \<and> success (body (GET_artifact (\<lambda>s. Inr (getProjectMetadata st s)) ra slug phase name)) = False"
  using assms
  by (simp add: GET_project_def PUT_project_def DELETE_project_def GET_artifact_def
        getProjectMetadata_def json_response_def)

theorem unknown_project_not_found_witness:
  "projects demo_store ''nonexistent'' = None
   \<and> GET_project ''nonexistent'' demo_store
       = (json_response False (Some ''Project not found'') 404, demo_store)
   \<and> PUT_project ''2025-01-01T00:00:00.000Z'' ''nonexistent''
        (Some (JObj [(''name'', JStr ''Updated'')])) demo_store
       = (json_response False (Some ''Project not found'') 404, demo_store)
   \<and> DELETE_project ''nonexistent'' demo_store
       = (json_response False (Some ''Project not found'') 404, demo_store)"
proof -
  have h: "projects demo_store ''nonexistent'' = None"
    by (simp add: demo_store_def)
  from unknown_project_not_found
    [OF h, of "''2025-01-01T00:00:00.000Z''" "Some (JObj [(''name'', JStr ''Updated'')])"] h
  show ?thesis
    by (simp add: GET_project_def PUT_project_def DELETE_project_def getProjectMetadata_def)
qed

end
